theory Spec2Isabelle
  imports Complex_Main
begin

section \<open>The platform: canvases, the container element, errors\<close>

text \<open>
  JavaScript numbers are modelled as \<open>real\<close> (exact arithmetic in place of IEEE doubles),
  canvas dimensions and DOM nodes as \<open>nat\<close>, clock readings of \<open>Date.now()\<close> as \<open>int\<close>
  milliseconds. An exception is a value \<open>Inl e\<close> of the result type \<open>error + 'a\<close>.
  Names of the source that start with an underscore are written without it.
\<close>

datatype error = TypeError | NotFoundError | IndexSizeError

definition and_then :: "error + 'a \<Rightarrow> ('a \<Rightarrow> error + 'b) \<Rightarrow> error + 'b" where
  "and_then r f = (case r of Inl e \<Rightarrow> Inl e | Inr v \<Rightarrow> f v)"

type_synonym node = nat

text \<open>The calls and property writes issued on a 2D context, oldest first.\<close>

datatype ctx_op =
    SetFont string
  | SetTextAlign string
  | SetFillStyle string
  | SetStrokeStyle string real
  | SetLineWidth real
  | FillRect real real real real
  | ClearRect real real real real
  | FillText string real real
  | DrawImage string real real
  | BeginPath
  | Arc real real real real real bool
  | Stroke

text \<open>
  A canvas element. \<open>style_top = Some k\<close> stands for the style value \<open>k\<close> followed by \<open>px\<close>.
\<close>

record canvas =
  canvas_id :: string
  width :: nat
  height :: nat
  style_top :: "int option"
  ops :: "ctx_op list"

text \<open>What \<open>document.createElement('canvas')\<close> returns: the HTML default of 300 by 150.\<close>

definition new_canvas :: canvas where
  "new_canvas = \<lparr>canvas_id = '''', width = 300, height = 150, style_top = None, ops = []\<rparr>"

section \<open>popover.js: the data of the PopoverManager\<close>

definition blueGray :: string where "blueGray = ''rgb(71, 70, 81)''"
definition gray :: string where "gray = ''rgb(186, 186, 186)''"
definition orange :: string where "orange = ''rgb(255, 184, 6)''"
definition green :: string where "green = ''rgb(171, 252, 170)''"

text \<open>
  Modelled from the spec: \<open>COSTUME_TYPE\<close> is declared outside the two source files; the spec
  gives the closed enumeration of costume kinds Dwarf, LaserMan, Ghost.
\<close>

datatype COSTUME_TYPE = dwarf | laserman | ghost

text \<open>
  \<open>this.ctx\<close>: the constructor only declares a local \<open>var ctx = null\<close>, so the property is
  \<open>undefined\<close> on a new manager; \<open>removePopover\<close> stores \<open>null\<close>; a show operation stores the
  context of the canvas it created.
\<close>

datatype ctx_ref = Undefined | Null | Ctx node

record costume_fields =
  costume :: string
  spriteURL :: string
  caption :: string
  imageLocation :: "real \<times> real"
  originalImageYLocation :: real

text \<open>
  \<open>this.costumeData\<close>: never assigned, the empty object of the game-start popover, or the
  object built by \<open>_setCostumeDataForCostume\<close> (which always carries the \<open>update\<close> closure).
\<close>

datatype costume_data = NoCostumeData | EmptyCostumeData | CostumeData costume_fields

record particle =
  radius :: real
  lineWidth :: real
  alpha :: real
  center :: "int \<times> int"
  color :: string

text \<open>\<open>fw_canvas\<close> is the variable \<open>canvas\<close> captured by the three update closures.\<close>

record fireworks_rec =
  particle1 :: particle
  particle2 :: particle
  particle3 :: particle
  fw_canvas :: node

text \<open>
  The browser state the PopoverManager works on: the store of canvas elements, the children
  of the element with id \<open>container\<close> in document order, the next unused node,
  \<open>window.ctx.canvas\<close> (the game board), the window's scroll position, the source of random
  numbers with the count of draws taken, and the manager's own three properties.
\<close>

record world =
  nodes :: "node \<Rightarrow> canvas"
  container :: "node list"
  next_node :: node
  board :: node
  scroll :: "int \<times> int"
  random_source :: "nat \<Rightarrow> nat"
  random_used :: nat
  ctx :: ctx_ref
  costumeData :: costume_data
  fireworks :: "fireworks_rec option"

text \<open>
  The \<open>width\<close> and \<open>height\<close> attributes of a canvas are unsigned longs: the number assigned
  is taken modulo \<open>2 ^ 32\<close>, and a result above 2147483647 is replaced by the attribute's
  default, 300 for the width and 150 for the height.
\<close>

definition canvas_dimension :: "nat \<Rightarrow> nat \<Rightarrow> nat" where
  "canvas_dimension dflt v =
     (if v mod 4294967296 \<le> 2147483647 then v mod 4294967296 else dflt)"

definition set_width :: "node \<Rightarrow> nat \<Rightarrow> world \<Rightarrow> world" where
  "set_width p n w =
     w\<lparr>nodes := (nodes w)(p := (nodes w p)\<lparr>width := canvas_dimension 300 n\<rparr>)\<rparr>"

definition set_height :: "node \<Rightarrow> nat \<Rightarrow> world \<Rightarrow> world" where
  "set_height p n w =
     w\<lparr>nodes := (nodes w)(p := (nodes w p)\<lparr>height := canvas_dimension 150 n\<rparr>)\<rparr>"

definition draw :: "node \<Rightarrow> ctx_op list \<Rightarrow> world \<Rightarrow> world" where
  "draw p os w = w\<lparr>nodes := (nodes w)(p := (nodes w p)\<lparr>ops := ops (nodes w p) @ os\<rparr>)\<rparr>"

text \<open>
  Modelled from the spec: \<open>randomIntegerInRange\<close> is defined outside the two source files; the
  spec says it yields an integer of the closed range. The raw draw comes from the random
  source; every value of the range can come out.
\<close>

definition randomIntegerInRange :: "int \<Rightarrow> int \<Rightarrow> world \<Rightarrow> int \<times> world" where
  "randomIntegerInRange lo hi w =
     (lo + int (random_source w (random_used w)) mod (hi - lo + 1),
      w\<lparr>random_used := Suc (random_used w)\<rparr>)"

section \<open>popover.js: the operations\<close>

text \<open>
  The constructor \<open>var PopoverManager = function() { var ctx = null; }\<close> declares a local
  variable and assigns no property: on the manager it builds, \<open>this.ctx\<close>,
  \<open>this.costumeData\<close> and \<open>this.fireworks\<close> are undefined.
\<close>

definition PopoverManager :: "world \<Rightarrow> world" where
  "PopoverManager w = w\<lparr>ctx := Undefined, costumeData := NoCostumeData, fireworks := None\<rparr>"

definition addCanvasToDOMWithID :: "string \<Rightarrow> world \<Rightarrow> world" where
  "addCanvasToDOMWithID i w =
     (let popover = next_node w;
          w1 = w\<lparr>nodes := (nodes w)(popover := new_canvas\<lparr>canvas_id := i\<rparr>),
                 next_node := Suc popover\<rparr>;
          w2 = w1\<lparr>container := container w1 @ [popover]\<rparr>;
          w3 = w2\<lparr>ctx := Ctx popover\<rparr>
      in if i = ''costume-popover''
         then set_height popover (height (nodes w3 (board w3)))
                (set_width popover (width (nodes w3 (board w3))) w3)
         else w3)"

definition showGameStartPopover :: "world \<Rightarrow> error + world" where
  "showGameStartPopover w0 =
     (let w1 = addCanvasToDOMWithID ''game-start-popover'' w0;
          w2 = w1\<lparr>costumeData := EmptyCostumeData\<rparr>
      in case ctx w2 of
           Ctx p \<Rightarrow>
             (let w3 = set_width p 720 w2;
                  w4 = set_height p 600 w3;
                  horizontalCenter = real (width (nodes w4 p)) / 2
              in Inr (draw p
                   [SetFont ''32pt Amatic SC'',
                    SetTextAlign ''center'',
                    SetFillStyle blueGray,
                    FillRect 0 0 (real (width (nodes w4 p))) (real (height (nodes w4 p))),
                    SetFillStyle gray,
                    FillText ''This is Jack:'' horizontalCenter 80,
                    FillText ''Help Jack find the'' horizontalCenter 300,
                    SetFillStyle orange,
                    FillText ''CANDYCORN'' horizontalCenter 350,
                    SetFillStyle gray,
                    FillText ''he dropped while'' horizontalCenter 390,
                    FillText ''trick-or-treating!'' horizontalCenter 430,
                    SetFont ''24pt Amatic SC'',
                    FillText ''[ space ] to continue'' horizontalCenter 560,
                    SetFillStyle orange,
                    SetFont ''32pt Amatic SC'',
                    FillText ''Jack'' (horizontalCenter + 36) 80,
                    SetFont ''24pt Amatic SC'',
                    FillText ''space'' (horizontalCenter - 54) 560,
                    DrawImage ''images/jack.png'' (horizontalCenter - 51) 60] w4))
         | _ \<Rightarrow> Inl TypeError)"

definition colors :: "string list" where
  "colors = [''rgba(255, 255, 255, %alpha%)'', ''rgba(255, 184, 6, %alpha%)'',
             ''rgba(171, 252, 170, %alpha%)'']"

definition fireworks_particle1_update :: "real \<Rightarrow> node \<Rightarrow> particle \<Rightarrow> world \<Rightarrow> particle \<times> world" where
  "fireworks_particle1_update dt cv p w =
     (let speed = 4;
          ds = speed * dt;
          p1 = p\<lparr>lineWidth := lineWidth p + 100 * ds\<rparr>;
          p2 = p1\<lparr>alpha := alpha p1 - ds\<rparr>
      in if alpha p2 < 0 then
           (let p3 = p2\<lparr>alpha := 1\<rparr>;
                p4 = p3\<lparr>lineWidth := 0\<rparr>;
                (cx, w1) = randomIntegerInRange 0 (int (width (nodes w cv))) w;
                (cy, w2) = randomIntegerInRange 0 (int (height (nodes w1 cv))) w1;
                (ci, w3) = randomIntegerInRange 0 (int (length colors) - 1) w2
            in (p4\<lparr>center := (cx, cy), color := colors ! nat ci\<rparr>, w3))
         else (p2, w))"

definition fireworks_particle2_update :: "real \<Rightarrow> node \<Rightarrow> particle \<Rightarrow> world \<Rightarrow> particle \<times> world" where
  "fireworks_particle2_update dt cv p w =
     (let speed = 5;
          ds = speed * dt;
          p1 = p\<lparr>alpha := alpha p - ds\<rparr>;
          p2 = p1\<lparr>radius := radius p1 + 18 * ds\<rparr>
      in if alpha p2 < 0 then
           (let p3 = p2\<lparr>alpha := 1\<rparr>;
                p4 = p3\<lparr>radius := 0\<rparr>;
                (cx, w1) = randomIntegerInRange 0 (int (width (nodes w cv))) w;
                (cy, w2) = randomIntegerInRange 0 (int (height (nodes w1 cv))) w1;
                (ci, w3) = randomIntegerInRange 0 (int (length colors) - 1) w2
            in (p4\<lparr>center := (cx, cy), color := colors ! nat ci\<rparr>, w3))
         else (p2, w))"

definition fireworks_particle3_update :: "real \<Rightarrow> node \<Rightarrow> particle \<Rightarrow> world \<Rightarrow> particle \<times> world" where
  "fireworks_particle3_update dt cv p w =
     (let speed = 20;
          ds = speed * dt;
          p1 = p\<lparr>lineWidth := lineWidth p - 3 * ds\<rparr>;
          p2 = p1\<lparr>radius := radius p1 + 10 * ds\<rparr>
      in if lineWidth p2 < 0 then
           (let p3 = p2\<lparr>lineWidth := 15\<rparr>;
                p4 = p3\<lparr>radius := 0\<rparr>;
                (cx, w1) = randomIntegerInRange 0 (int (width (nodes w cv))) w;
                (cy, w2) = randomIntegerInRange 0 (int (height (nodes w1 cv))) w1;
                (ci, w3) = randomIntegerInRange 0 (int (length colors) - 1) w2
            in (p4\<lparr>center := (cx, cy), color := colors ! nat ci\<rparr>, w3))
         else (p2, w))"

definition setFireworks :: "world \<Rightarrow> error + world" where
  "setFireworks w =
     (case ctx w of
        Ctx cv \<Rightarrow>
          Inr (w\<lparr>fireworks := Some
            \<lparr>particle1 = \<lparr>radius = 50, lineWidth = 0, alpha = 1, center = (0, 0),
                           color = ''rgba(255, 184, 6, %alpha%)''\<rparr>,
             particle2 = \<lparr>radius = 0, lineWidth = 10, alpha = 1, center = (0, 0),
                           color = ''rgba(255, 184, 6, %alpha%)''\<rparr>,
             particle3 = \<lparr>radius = 0, lineWidth = 20, alpha = 1, center = (0, 0),
                           color = ''rgba(255, 184, 6, %alpha%)''\<rparr>,
             fw_canvas = cv\<rparr>\<rparr>)
      | _ \<Rightarrow> Inl TypeError)"

text \<open>
  The stroke of one particle. \<open>SetStrokeStyle c a\<close> stands for the colour template \<open>c\<close> with
  \<open>a\<close> written in place of \<open>%alpha%\<close>. The platform's \<open>arc\<close> throws \<open>IndexSizeError\<close> on a
  negative radius.
\<close>

definition renderParticle :: "node \<Rightarrow> particle \<Rightarrow> world \<Rightarrow> error + world" where
  "renderParticle p pt w =
     (let w1 = draw p [SetStrokeStyle (color pt) (alpha pt), SetLineWidth (lineWidth pt),
                       BeginPath] w
      in if radius pt < 0 then Inl IndexSizeError
         else Inr (draw p [Arc (real_of_int (fst (center pt))) (real_of_int (snd (center pt)))
                               (radius pt) 0 (2 * pi) True,
                           Stroke] w1))"

text \<open>A \<open>for ... in\<close> loop over an undefined \<open>this.fireworks\<close> runs no iteration.\<close>

definition renderFireworks :: "world \<Rightarrow> error + world" where
  "renderFireworks w =
     (case fireworks w of
        None \<Rightarrow> Inr w
      | Some f \<Rightarrow>
          (case ctx w of
             Ctx p \<Rightarrow>
               and_then (renderParticle p (particle1 f) w) (\<lambda>w1.
               and_then (renderParticle p (particle2 f) w1) (\<lambda>w2.
               renderParticle p (particle3 f) w2))
           | _ \<Rightarrow> Inl TypeError))"

definition renderEndOfGamePopover :: "world \<Rightarrow> error + world" where
  "renderEndOfGamePopover w =
     (case ctx w of
        Ctx p \<Rightarrow>
          (let w1 = draw p [ClearRect 0 0 (real (width (nodes w p))) (real (height (nodes w p)))] w;
               w2 = set_width p 1280 w1;
               w3 = set_height p 700 w2;
               horizontalCenter = real (width (nodes w3 p)) / 2;
               verticalCenter = real (height (nodes w3 p)) / 2;
               w4 = draw p
                 [SetFillStyle blueGray,
                  FillRect 0 0 (real (width (nodes w3 p))) (real (height (nodes w3 p))),
                  SetFont ''48pt Amatic SC'',
                  SetTextAlign ''center'',
                  SetFillStyle orange,
                  FillText ''Happy Halloween'' horizontalCenter verticalCenter] w3
           in renderFireworks w4)
      | _ \<Rightarrow> Inl TypeError)"

definition presentGameFinishPopover :: "world \<Rightarrow> error + world" where
  "presentGameFinishPopover w =
     and_then (setFireworks (addCanvasToDOMWithID ''game-end-popover'' w)) renderEndOfGamePopover"

text \<open>The closure \<open>update\<close> stored in \<open>costumeData\<close>; \<open>now\<close> is the reading of \<open>Date.now()\<close>.\<close>

definition costume_update :: "int \<Rightarrow> costume_fields \<Rightarrow> costume_fields" where
  "costume_update now c =
     (let maxDY = 8;
          frequencyControl = 800;
          dy = maxDY * sin (real_of_int now / frequencyControl)
      in c\<lparr>imageLocation := (fst (imageLocation c), originalImageYLocation c + dy)\<rparr>)"

definition setCostumeDataForCostume :: "COSTUME_TYPE \<Rightarrow> world \<Rightarrow> error + world" where
  "setCostumeDataForCostume k w =
     (let (nm, url, cap) =
            (case k of
               dwarf \<Rightarrow> (''DWARF'', ''images/dwarf-red.png'', ''Rocks were meant for smashing.'')
             | laserman \<Rightarrow> (''LASERMAN'', ''images/glasses-blue.png'', ''Lasers shmasers.'')
             | ghost \<Rightarrow> (''GHOST'', ''images/ghost-costume.png'', ''100% Believeable.''))
      in case ctx w of
           Ctx p \<Rightarrow>
             Inr (w\<lparr>costumeData := CostumeData
                    \<lparr>costume = nm, spriteURL = url, caption = cap,
                     imageLocation = (real (width (nodes w p)) / 2 - 51, 60),
                     originalImageYLocation = 60\<rparr>\<rparr>)
         | _ \<Rightarrow> Inl TypeError)"

definition presentLaserManPopover :: "world \<Rightarrow> error + world" where
  "presentLaserManPopover w =
     setCostumeDataForCostume laserman (addCanvasToDOMWithID ''costume-popover'' w)"

definition presentDwarfPopover :: "world \<Rightarrow> error + world" where
  "presentDwarfPopover w =
     setCostumeDataForCostume dwarf (addCanvasToDOMWithID ''costume-popover'' w)"

definition presentGhostPopover :: "world \<Rightarrow> error + world" where
  "presentGhostPopover w =
     setCostumeDataForCostume ghost (addCanvasToDOMWithID ''costume-popover'' w)"

text \<open>
  \<open>removeChild\<close> throws \<open>NotFoundError\<close> when its argument is not a child of the container.
\<close>

definition removePopover :: "world \<Rightarrow> error + world" where
  "removePopover w =
     (case ctx w of
        Null \<Rightarrow> Inr w
      | Undefined \<Rightarrow> Inl TypeError
      | Ctx p \<Rightarrow>
          if p \<in> set (container w)
          then Inr (w\<lparr>container := remove1 p (container w), ctx := Null\<rparr>)
          else Inl NotFoundError)"

definition isDisplayingCostumePopover :: "world \<Rightarrow> error + bool" where
  "isDisplayingCostumePopover w =
     (case ctx w of
        Null \<Rightarrow> Inr False
      | Undefined \<Rightarrow> Inl TypeError
      | Ctx p \<Rightarrow> Inr (canvas_id (nodes w p) = ''costume-popover''))"

definition isDisplayingEndOfGamePopover :: "world \<Rightarrow> error + bool" where
  "isDisplayingEndOfGamePopover w =
     (case ctx w of
        Null \<Rightarrow> Inr False
      | Undefined \<Rightarrow> Inl TypeError
      | Ctx p \<Rightarrow> Inr (canvas_id (nodes w p) = ''game-end-popover''))"

definition updateFireworks :: "real \<Rightarrow> world \<Rightarrow> world" where
  "updateFireworks dt w =
     (case fireworks w of
        None \<Rightarrow> w
      | Some f \<Rightarrow>
          (let (p1, w1) = fireworks_particle1_update dt (fw_canvas f) (particle1 f) w;
               (p2, w2) = fireworks_particle2_update dt (fw_canvas f) (particle2 f) w1;
               (p3, w3) = fireworks_particle3_update dt (fw_canvas f) (particle3 f) w2
           in w3\<lparr>fireworks := Some (f\<lparr>particle1 := p1, particle2 := p2, particle3 := p3\<rparr>)\<rparr>))"

text \<open>
  \<open>PopoverManager.prototype.update\<close>. The costume closure is called without argument and
  reads the clock itself: \<open>now\<close> is that reading.
\<close>

definition PopoverManager_update :: "real \<Rightarrow> int \<Rightarrow> world \<Rightarrow> error + world" where
  "PopoverManager_update dt now w =
     and_then (isDisplayingCostumePopover w) (\<lambda>c.
       if c then
         (case costumeData w of
            CostumeData d \<Rightarrow> Inr (w\<lparr>costumeData := CostumeData (costume_update now d)\<rparr>)
          | _ \<Rightarrow> Inl TypeError)
       else and_then (isDisplayingEndOfGamePopover w) (\<lambda>e.
         if e then Inr (updateFireworks dt w) else Inr w))"

definition renderCostumePopover :: "world \<Rightarrow> error + world" where
  "renderCostumePopover w =
     (case ctx w of
        Ctx p \<Rightarrow>
          (let w1 = w\<lparr>scroll := (0, 0)\<rparr>;
               w2 = w1\<lparr>nodes := (nodes w1)(p := (nodes w1 p)
                         \<lparr>style_top := Some (- int (height (nodes w1 (board w1))))\<rparr>)\<rparr>;
               horizontalCenter = real (width (nodes w2 p)) / 2;
               canvasHeight = real (height (nodes w2 p));
               w3 = draw p
                 [ClearRect 0 0 (real (width (nodes w2 p))) (real (height (nodes w2 p))),
                  SetFillStyle ''rgba(71, 70, 81, 0.9)'',
                  SetTextAlign ''center'',
                  SetFont ''32pt Amatic SC'',
                  FillRect 0 0 (real (width (nodes w2 p))) (real (height (nodes w2 p))),
                  SetFillStyle orange] w2
           in case costumeData w3 of
                CostumeData d \<Rightarrow>
                  (let w4 = draw p
                        [FillText (costume d) horizontalCenter (0.1 * canvasHeight),
                         SetFillStyle ''white'',
                         FillText (caption d) horizontalCenter (0.7 * canvasHeight),
                         SetFont ''24pt Amatic SC'',
                         SetFillStyle gray,
                         FillText ''COSTUME'' horizontalCenter (0.2 * canvasHeight),
                         FillText ''[ space ] to continue'' horizontalCenter (0.9 * canvasHeight),
                         SetFillStyle ''orange'',
                         FillText ''space'' (horizontalCenter - 54) (0.9 * canvasHeight)] w3;
                       d1 = d\<lparr>originalImageYLocation := 0.25 * canvasHeight\<rparr>;
                       w5 = w4\<lparr>costumeData := CostumeData d1\<rparr>
                   in Inr (draw p [DrawImage (spriteURL d1) (horizontalCenter - 51)
                                     (snd (imageLocation d1))] w5))
              | _ \<Rightarrow> Inl TypeError)
      | _ \<Rightarrow> Inl TypeError)"

definition PopoverManager_render :: "world \<Rightarrow> error + world" where
  "PopoverManager_render w =
     and_then (isDisplayingCostumePopover w) (\<lambda>c.
       if c then renderCostumePopover w
       else and_then (isDisplayingEndOfGamePopover w) (\<lambda>e.
         if e then renderEndOfGamePopover w else Inr w))"

section \<open>The engine: the frame scheduler\<close>

text \<open>
  Enemies, the player, laser obstacles, \<open>BoardManager\<close>, \<open>AnimationQueue\<close> and \<open>Resources\<close>
  are defined outside the two source files. A call to one of them is recorded as an event
  of the trace, in the order the calls are made, and is taken to return normally and to
  leave the state modelled here as it is. The engine's own writes to its canvas are recorded
  as events too. Entities are opaque handles.
\<close>

type_synonym entity = nat

datatype event =
    SetCanvasWidth nat
  | SetCanvasHeight nat
  | EnemyUpdate entity real
  | PlayerUpdate entity
  | ConsoleLog string
  | LaserUpdate entity real
  | UpdateCostumes real
  | AnimationQueueUpdate real
  | PopoverUpdate real
  | CheckEnemyCollisions
  | RenderBoard
  | AnimationQueueRender
  | EnemyRender entity
  | PlayerRender entity
  | PopoverRender
  | RequestAnimationFrame

text \<open>
  The state a frame works on. The engine's canvas is \<open>board (browser g)\<close>, the canvas it
  publishes as \<open>window.ctx\<close>; \<open>numCols\<close> and \<open>numRows\<close> are those of
  \<open>BoardManager.currentLevelMap\<close>; \<open>player = None\<close> is a player that is not initialized.
\<close>

record game =
  browser :: world
  lastTime :: int
  currentLevel :: nat
  numCols :: nat
  numRows :: nat
  allEnemies :: "entity list"
  player :: "entity option"
  laserObstacles :: "entity list"
  trace :: "event list"

definition emit :: "event \<Rightarrow> game \<Rightarrow> game" where
  "emit e g = g\<lparr>trace := trace g @ [e]\<rparr>"

definition updateCanvasDimensions :: "game \<Rightarrow> game" where
  "updateCanvasDimensions g =
     (let g1 = emit (SetCanvasWidth (101 * numCols g))
                 (g\<lparr>browser := set_width (board (browser g)) (101 * numCols g) (browser g)\<rparr>);
          g2 = emit (SetCanvasHeight (101 * numRows g1))
                 (g1\<lparr>browser := set_height (board (browser g1)) (101 * numRows g1) (browser g1)\<rparr>)
      in g2)"

definition updateEntities :: "real \<Rightarrow> game \<Rightarrow> game" where
  "updateEntities dt g =
     (let g1 = foldl (\<lambda>s enemy. emit (EnemyUpdate enemy dt) s) g (allEnemies g);
          g2 = (case player g1 of
                  Some p \<Rightarrow> emit (PlayerUpdate p) g1
                | None \<Rightarrow> emit (ConsoleLog ''Wait for player to initialize'') g1)
      in foldl (\<lambda>s laser. emit (LaserUpdate laser dt) s) g2 (laserObstacles g2))"

definition updateCollectibles :: "real \<Rightarrow> game \<Rightarrow> game" where
  "updateCollectibles dt g = emit (UpdateCostumes dt) g"

definition updateAnimations :: "real \<Rightarrow> game \<Rightarrow> game" where
  "updateAnimations dt g = emit (AnimationQueueUpdate dt) g"

definition updatePopover :: "real \<Rightarrow> int \<Rightarrow> game \<Rightarrow> error + game" where
  "updatePopover dt now g =
     and_then (PopoverManager_update dt now (browser (emit (PopoverUpdate dt) g)))
       (\<lambda>w. Inr ((emit (PopoverUpdate dt) g)\<lparr>browser := w\<rparr>))"

definition checkCollisions :: "game \<Rightarrow> game" where
  "checkCollisions g = emit CheckEnemyCollisions g"

text \<open>\<open>update(dt)\<close> of the engine; \<open>now\<close> is the clock reading taken inside the popover update.\<close>

definition update :: "real \<Rightarrow> int \<Rightarrow> game \<Rightarrow> error + game" where
  "update dt now g =
     (let g1 = updateCanvasDimensions g;
          g2 = updateEntities dt g1;
          g3 = updateCollectibles dt g2;
          g4 = updateAnimations dt g3
      in and_then (updatePopover dt now g4) (\<lambda>g5. Inr (checkCollisions g5)))"

definition renderBoard :: "game \<Rightarrow> game" where
  "renderBoard g = emit RenderBoard g"

definition renderAnimations :: "game \<Rightarrow> game" where
  "renderAnimations g = emit AnimationQueueRender g"

definition renderEntities :: "game \<Rightarrow> game" where
  "renderEntities g =
     (let g1 = foldl (\<lambda>s enemy. emit (EnemyRender enemy) s) g (allEnemies g)
      in case player g1 of
           Some p \<Rightarrow> emit (PlayerRender p) g1
         | None \<Rightarrow> emit (ConsoleLog ''Wait for player to initialize'') g1)"

definition renderPopover :: "game \<Rightarrow> error + game" where
  "renderPopover g =
     and_then (PopoverManager_render (browser (emit PopoverRender g)))
       (\<lambda>w. Inr ((emit PopoverRender g)\<lparr>browser := w\<rparr>))"

definition render :: "game \<Rightarrow> error + game" where
  "render g = renderPopover (renderEntities (renderAnimations (renderBoard g)))"

text \<open>
  One run of the loop body \<open>main\<close>: \<open>now\<close> is its own reading of \<open>Date.now()\<close>, \<open>t\<close> the reading
  taken inside the popover update. The next run is the platform's to start; asking for it is
  the last event.
\<close>

definition main :: "int \<Rightarrow> int \<Rightarrow> game \<Rightarrow> error + game" where
  "main now t g =
     (let dt = real_of_int (now - lastTime g) / 1000.0
      in and_then (update dt t g) (\<lambda>g1.
         and_then (render g1) (\<lambda>g2.
         Inr (emit RequestAnimationFrame (g2\<lparr>lastTime := now\<rparr>)))))"

definition reset :: "game \<Rightarrow> game" where
  "reset g = g"

text \<open>\<open>init\<close>: \<open>now0\<close> is its reading of the clock, \<open>now\<close> and \<open>t\<close> are those of the first frame.\<close>

definition init :: "int \<Rightarrow> int \<Rightarrow> int \<Rightarrow> game \<Rightarrow> error + game" where
  "init now0 now t g =
     (let g1 = reset g;
          g2 = g1\<lparr>lastTime := now0\<rparr>;
          g3 = g2\<lparr>currentLevel := 1\<rparr>
      in and_then (showGameStartPopover (browser g3)) (\<lambda>w. main now t (g3\<lparr>browser := w\<rparr>)))"

text \<open>The frames the platform starts one after the other, each with its two clock readings.\<close>

fun frames :: "(int \<times> int) list \<Rightarrow> game \<Rightarrow> error + game" where
  "frames [] g = Inr g"
| "frames ((now, t) # rest) g = and_then (main now t g) (frames rest)"

section \<open>Runs of the PopoverManager's public operations\<close>

datatype popover_call =
    ShowGameStart
  | PresentLaserMan
  | PresentDwarf
  | PresentGhost
  | PresentGameFinish
  | Remove
  | Update real int
  | Render

fun call :: "popover_call \<Rightarrow> world \<Rightarrow> error + world" where
  "call ShowGameStart w = showGameStartPopover w"
| "call PresentLaserMan w = presentLaserManPopover w"
| "call PresentDwarf w = presentDwarfPopover w"
| "call PresentGhost w = presentGhostPopover w"
| "call PresentGameFinish w = presentGameFinishPopover w"
| "call Remove w = removePopover w"
| "call (Update dt now) w = PopoverManager_update dt now w"
| "call Render w = PopoverManager_render w"

fun calls :: "popover_call list \<Rightarrow> world \<Rightarrow> error + world" where
  "calls [] w = Inr w"
| "calls (c # cs) w = and_then (call c w) (calls cs)"

fun is_show :: "popover_call \<Rightarrow> bool" where
  "is_show ShowGameStart = True"
| "is_show PresentLaserMan = True"
| "is_show PresentDwarf = True"
| "is_show PresentGhost = True"
| "is_show PresentGameFinish = True"
| "is_show _ = False"

fun is_update :: "popover_call \<Rightarrow> bool" where
  "is_update (Update dt now) = True"
| "is_update _ = False"

fun is_frame_call :: "popover_call \<Rightarrow> bool" where
  "is_frame_call (Update dt now) = True"
| "is_frame_call Render = True"
| "is_frame_call _ = False"

text \<open>An update is given a time step that is not negative.\<close>

fun no_negative_step :: "popover_call \<Rightarrow> bool" where
  "no_negative_step (Update dt now) = (0 \<le> dt)"
| "no_negative_step _ = True"

text \<open>The id a show operation gives to the canvas it creates.\<close>

fun popover_id :: "popover_call \<Rightarrow> string" where
  "popover_id ShowGameStart = ''game-start-popover''"
| "popover_id PresentGameFinish = ''game-end-popover''"
| "popover_id PresentLaserMan = ''costume-popover''"
| "popover_id PresentDwarf = ''costume-popover''"
| "popover_id PresentGhost = ''costume-popover''"
| "popover_id _ = []"

text \<open>\<open>this.costumeData.imageLocation.y\<close>, when there is one.\<close>

definition imageLocation_y :: "world \<Rightarrow> real option" where
  "imageLocation_y w =
     (case costumeData w of CostumeData d \<Rightarrow> Some (snd (imageLocation d)) | _ \<Rightarrow> None)"

section \<open>Well-formed states\<close>

text \<open>
  The document is well formed: the children of the container are distinct nodes that were
  created before, and the canvas the manager refers to is one of them.
\<close>

definition attached_ok :: "world \<Rightarrow> bool" where
  "attached_ok w =
     (distinct (container w) \<and> list_all (\<lambda>n. n < next_node w) (container w) \<and>
      (case ctx w of Ctx p \<Rightarrow> p \<in> set (container w) | _ \<Rightarrow> True))"

text \<open>
  The manager has shown a popover at least once (\<open>this.ctx\<close> is a context or \<open>null\<close>), a
  costume popover on display has its costume data, and the fireworks of an end-of-game
  popover on display have radii that are not negative.
\<close>

definition popover_ready :: "world \<Rightarrow> bool" where
  "popover_ready w =
     (case ctx w of
        Undefined \<Rightarrow> False
      | Null \<Rightarrow> True
      | Ctx p \<Rightarrow>
          if canvas_id (nodes w p) = ''costume-popover''
          then (case costumeData w of CostumeData d \<Rightarrow> True | _ \<Rightarrow> False)
          else if canvas_id (nodes w p) = ''game-end-popover''
          then (case fireworks w of
                  None \<Rightarrow> True
                | Some f \<Rightarrow> 0 \<le> radius (particle1 f) \<and> 0 \<le> radius (particle2 f) \<and>
                            0 \<le> radius (particle3 f))
          else True)"

text \<open>The events of one \<open>update(dt)\<close> and of one \<open>render()\<close> of the engine, in order.\<close>

definition update_events :: "real \<Rightarrow> game \<Rightarrow> event list" where
  "update_events dt g =
     [SetCanvasWidth (101 * numCols g), SetCanvasHeight (101 * numRows g)] @
     map (\<lambda>enemy. EnemyUpdate enemy dt) (allEnemies g) @
     [case player g of Some p \<Rightarrow> PlayerUpdate p
                     | None \<Rightarrow> ConsoleLog ''Wait for player to initialize''] @
     map (\<lambda>laser. LaserUpdate laser dt) (laserObstacles g) @
     [UpdateCostumes dt, AnimationQueueUpdate dt, PopoverUpdate dt, CheckEnemyCollisions]"

definition render_events :: "game \<Rightarrow> event list" where
  "render_events g =
     [RenderBoard, AnimationQueueRender] @
     map EnemyRender (allEnemies g) @
     [case player g of Some p \<Rightarrow> PlayerRender p
                     | None \<Rightarrow> ConsoleLog ''Wait for player to initialize'',
      PopoverRender]"


section \<open>Concrete states\<close>

text \<open>
  The page after both scripts have run and before any popover is shown: the game board of
  5 by 6 tiles is the only child of the container, the manager is new.
\<close>

definition world0 :: world where
  "world0 =
     \<lparr>nodes = (\<lambda>_. new_canvas)(0 := \<lparr>canvas_id = ''game-board'', width = 505, height = 606,
                                      style_top = None, ops = []\<rparr>),
      container = [0],
      next_node = 1,
      board = 0,
      scroll = (0, 0),
      random_source = (\<lambda>i. 7 * i + 3),
      random_used = 0,
      ctx = Undefined,
      costumeData = NoCostumeData,
      fireworks = None\<rparr>"

definition game0 :: game where
  "game0 =
     \<lparr>browser = world0, lastTime = 0, currentLevel = 0, numCols = 5, numRows = 6,
      allEnemies = [10, 11], player = None, laserObstacles = [20], trace = []\<rparr>"

definition particle0 :: particle where
  "particle0 = \<lparr>radius = 50, lineWidth = 0, alpha = 1, center = (0, 0),
                 color = ''rgba(255, 184, 6, %alpha%)''\<rparr>"

section \<open>Sequencing\<close>

lemma and_then_Inr [simp]: "and_then (Inr v) f = f v"
  by (simp add: and_then_def)

lemma and_then_Inl [simp]: "and_then (Inl e) f = Inl e"
  by (simp add: and_then_def)

section \<open>Facts about the popover operations\<close>

subsection \<open>Canvases and show operations\<close>

lemma addCanvas_ctx [simp]: "ctx (addCanvasToDOMWithID i w) = Ctx (next_node w)"
  by (simp add: addCanvasToDOMWithID_def Let_def set_width_def set_height_def)

lemma addCanvas_container [simp]:
  "container (addCanvasToDOMWithID i w) = container w @ [next_node w]"
  by (simp add: addCanvasToDOMWithID_def Let_def set_width_def set_height_def)

lemma addCanvas_next_node [simp]: "next_node (addCanvasToDOMWithID i w) = Suc (next_node w)"
  by (simp add: addCanvasToDOMWithID_def Let_def set_width_def set_height_def)

lemma addCanvas_canvas_id [simp]:
  "canvas_id (nodes (addCanvasToDOMWithID i w) (next_node w)) = i"
  by (simp add: addCanvasToDOMWithID_def Let_def set_width_def set_height_def new_canvas_def)

lemma addCanvas_other [simp]:
  "n \<noteq> next_node w \<Longrightarrow> nodes (addCanvasToDOMWithID i w) n = nodes w n"
  by (simp add: addCanvasToDOMWithID_def Let_def set_width_def set_height_def)

lemma addCanvas_costumeData [simp]: "costumeData (addCanvasToDOMWithID i w) = costumeData w"
  by (simp add: addCanvasToDOMWithID_def Let_def set_width_def set_height_def)

lemma addCanvas_fireworks [simp]: "fireworks (addCanvasToDOMWithID i w) = fireworks w"
  by (simp add: addCanvasToDOMWithID_def Let_def set_width_def set_height_def)

lemma addCanvas_board [simp]: "board (addCanvasToDOMWithID i w) = board w"
  by (simp add: addCanvasToDOMWithID_def Let_def set_width_def set_height_def)

lemma draw_fields [simp]:
  "ctx (draw p os w) = ctx w" "container (draw p os w) = container w"
  "next_node (draw p os w) = next_node w" "costumeData (draw p os w) = costumeData w"
  "fireworks (draw p os w) = fireworks w" "board (draw p os w) = board w"
  "canvas_id (nodes (draw p os w) n) = canvas_id (nodes w n)"
  "width (nodes (draw p os w) n) = width (nodes w n)"
  "height (nodes (draw p os w) n) = height (nodes w n)"
  "n \<noteq> p \<Longrightarrow> nodes (draw p os w) n = nodes w n"
  by (simp_all add: draw_def)

lemma canvas_dimension_small [simp]:
  "v \<le> 2147483647 \<Longrightarrow> canvas_dimension dflt v = v"
  by (simp add: canvas_dimension_def)

lemma set_width_fields [simp]:
  "ctx (set_width p k w) = ctx w" "container (set_width p k w) = container w"
  "next_node (set_width p k w) = next_node w" "costumeData (set_width p k w) = costumeData w"
  "fireworks (set_width p k w) = fireworks w" "board (set_width p k w) = board w"
  "canvas_id (nodes (set_width p k w) n) = canvas_id (nodes w n)"
  "height (nodes (set_width p k w) n) = height (nodes w n)"
  "width (nodes (set_width p k w) p) = canvas_dimension 300 k"
  "n \<noteq> p \<Longrightarrow> nodes (set_width p k w) n = nodes w n"
  by (simp_all add: set_width_def)

lemma set_height_fields [simp]:
  "ctx (set_height p k w) = ctx w" "container (set_height p k w) = container w"
  "next_node (set_height p k w) = next_node w" "costumeData (set_height p k w) = costumeData w"
  "fireworks (set_height p k w) = fireworks w" "board (set_height p k w) = board w"
  "canvas_id (nodes (set_height p k w) n) = canvas_id (nodes w n)"
  "width (nodes (set_height p k w) n) = width (nodes w n)"
  "height (nodes (set_height p k w) p) = canvas_dimension 150 k"
  "n \<noteq> p \<Longrightarrow> nodes (set_height p k w) n = nodes w n"
  by (simp_all add: set_height_def)

lemma showGameStartPopover_result:
  "\<exists>s. showGameStartPopover w = Inr s \<and> ctx s = Ctx (next_node w) \<and>
       container s = container w @ [next_node w] \<and> next_node s = Suc (next_node w) \<and>
       canvas_id (nodes s (next_node w)) = ''game-start-popover'' \<and>
       costumeData s = EmptyCostumeData \<and> fireworks s = fireworks w \<and> board s = board w \<and>
       (\<forall>n. n \<noteq> next_node w \<longrightarrow> nodes s n = nodes w n)"
  by (simp add: showGameStartPopover_def Let_def)


subsection \<open>Firework particles\<close>

lemma random_fields [simp]:
  "nodes (snd (randomIntegerInRange lo hi w)) = nodes w"
  "ctx (snd (randomIntegerInRange lo hi w)) = ctx w"
  "container (snd (randomIntegerInRange lo hi w)) = container w"
  "next_node (snd (randomIntegerInRange lo hi w)) = next_node w"
  "board (snd (randomIntegerInRange lo hi w)) = board w"
  "costumeData (snd (randomIntegerInRange lo hi w)) = costumeData w"
  "fireworks (snd (randomIntegerInRange lo hi w)) = fireworks w"
  "scroll (snd (randomIntegerInRange lo hi w)) = scroll w"
  by (simp_all add: randomIntegerInRange_def)

lemma particle1_world:
  "snd (fireworks_particle1_update dt cv p w) =
     w\<lparr>random_used := (if alpha p - 4 * dt < 0 then random_used w + 3 else random_used w)\<rparr>"
  by (simp add: fireworks_particle1_update_def Let_def randomIntegerInRange_def)

lemma particle2_world:
  "snd (fireworks_particle2_update dt cv p w) =
     w\<lparr>random_used := (if alpha p - 5 * dt < 0 then random_used w + 3 else random_used w)\<rparr>"
  by (simp add: fireworks_particle2_update_def Let_def randomIntegerInRange_def)

lemma particle3_world:
  "snd (fireworks_particle3_update dt cv p w) =
     w\<lparr>random_used := (if lineWidth p - 3 * (20 * dt) < 0 then random_used w + 3 else random_used w)\<rparr>"
  by (simp add: fireworks_particle3_update_def Let_def randomIntegerInRange_def)

lemma particle1_radius: "radius (fst (fireworks_particle1_update dt cv p w)) = radius p"
  by (simp add: fireworks_particle1_update_def Let_def randomIntegerInRange_def)

lemma particle2_radius:
  "0 \<le> dt \<Longrightarrow> 0 \<le> radius p \<Longrightarrow> 0 \<le> radius (fst (fireworks_particle2_update dt cv p w))"
  by (simp add: fireworks_particle2_update_def Let_def randomIntegerInRange_def)

lemma particle3_radius:
  "0 \<le> dt \<Longrightarrow> 0 \<le> radius p \<Longrightarrow> 0 \<le> radius (fst (fireworks_particle3_update dt cv p w))"
  by (simp add: fireworks_particle3_update_def Let_def randomIntegerInRange_def)

lemma updateFireworks_fields [simp]:
  "nodes (updateFireworks dt w) = nodes w"
  "ctx (updateFireworks dt w) = ctx w"
  "container (updateFireworks dt w) = container w"
  "next_node (updateFireworks dt w) = next_node w"
  "board (updateFireworks dt w) = board w"
  "costumeData (updateFireworks dt w) = costumeData w"
  "scroll (updateFireworks dt w) = scroll w"
  by (cases "fireworks w";
      simp add: updateFireworks_def Let_def case_prod_beta particle1_world particle2_world
        particle3_world)+

lemma updateFireworks_radii:
  assumes "0 \<le> dt" "fireworks w = Some f"
    "0 \<le> radius (particle1 f)" "0 \<le> radius (particle2 f)" "0 \<le> radius (particle3 f)"
  shows "\<exists>f'. fireworks (updateFireworks dt w) = Some f' \<and>
           0 \<le> radius (particle1 f') \<and> 0 \<le> radius (particle2 f') \<and> 0 \<le> radius (particle3 f')"
  using assms
  by (simp add: updateFireworks_def Let_def case_prod_beta particle1_radius particle2_radius
        particle3_radius)

lemma updateFireworks_None: "fireworks w = None \<Longrightarrow> updateFireworks dt w = w"
  by (simp add: updateFireworks_def)

lemma randomIntegerInRange_bounds:
  "lo \<le> hi \<Longrightarrow> lo \<le> fst (randomIntegerInRange lo hi w) \<and> fst (randomIntegerInRange lo hi w) \<le> hi"
  by (simp add: randomIntegerInRange_def) (smt (verit) pos_mod_bound pos_mod_sign)

lemma colors_pick: "0 \<le> i \<Longrightarrow> i \<le> 2 \<Longrightarrow> colors ! nat i \<in> set colors"
  by (rule nth_mem) (simp add: colors_def)

lemma length_colors: "length colors = 3"
  by (simp add: colors_def)

lemma restart_bounds:
  "0 \<le> fst (randomIntegerInRange 0 (int n) w) \<and> fst (randomIntegerInRange 0 (int n) w) \<le> int n"
  by (rule randomIntegerInRange_bounds) simp

lemma restart_color:
  "colors ! nat (fst (randomIntegerInRange 0 2 w)) \<in> set colors"
  by (rule colors_pick) (simp_all add: randomIntegerInRange_bounds)

subsection \<open>What the show operations leave\<close>

lemma setCostumeData_result:
  "ctx w = Ctx p \<Longrightarrow>
   setCostumeDataForCostume k w =
     Inr (w\<lparr>costumeData := CostumeData
            \<lparr>costume = (case k of dwarf \<Rightarrow> ''DWARF'' | laserman \<Rightarrow> ''LASERMAN''
                         | ghost \<Rightarrow> ''GHOST''),
             spriteURL = (case k of dwarf \<Rightarrow> ''images/dwarf-red.png''
                         | laserman \<Rightarrow> ''images/glasses-blue.png''
                         | ghost \<Rightarrow> ''images/ghost-costume.png''),
             caption = (case k of dwarf \<Rightarrow> ''Rocks were meant for smashing.''
                         | laserman \<Rightarrow> ''Lasers shmasers.''
                         | ghost \<Rightarrow> ''100% Believeable.''),
             imageLocation = (real (width (nodes w p)) / 2 - 51, 60),
             originalImageYLocation = 60\<rparr>\<rparr>)"
  by (cases k) (simp_all add: setCostumeDataForCostume_def)

lemma present_costume_result:
  "\<exists>s d. setCostumeDataForCostume k (addCanvasToDOMWithID ''costume-popover'' w) = Inr s \<and>
       ctx s = Ctx (next_node w) \<and>
       container s = container w @ [next_node w] \<and> next_node s = Suc (next_node w) \<and>
       canvas_id (nodes s (next_node w)) = ''costume-popover'' \<and>
       costumeData s = CostumeData d \<and> originalImageYLocation d = 60 \<and>
       snd (imageLocation d) = 60 \<and> fireworks s = fireworks w \<and> board s = board w \<and>
       (\<forall>n. n \<noteq> next_node w \<longrightarrow> nodes s n = nodes w n)"
proof -
  have "ctx (addCanvasToDOMWithID ''costume-popover'' w) = Ctx (next_node w)" by simp
  from setCostumeData_result [OF this, of k]
  show ?thesis by simp
qed

lemma renderParticle_ok:
  "0 \<le> radius pt \<Longrightarrow>
   renderParticle p pt w =
     Inr (draw p [SetStrokeStyle (color pt) (alpha pt), SetLineWidth (lineWidth pt), BeginPath,
                  Arc (real_of_int (fst (center pt))) (real_of_int (snd (center pt)))
                    (radius pt) 0 (2 * pi) True, Stroke] w)"
  by (simp add: renderParticle_def draw_def Let_def)

lemma renderFireworks_ok:
  assumes "ctx w = Ctx p"
    and "case fireworks w of None \<Rightarrow> True
         | Some f \<Rightarrow> 0 \<le> radius (particle1 f) \<and> 0 \<le> radius (particle2 f) \<and> 0 \<le> radius (particle3 f)"
  shows "\<exists>os. renderFireworks w = Inr (draw p os w)"
proof (cases "fireworks w")
  case None
  have "draw p [] w = w" by (simp add: draw_def)
  then have "renderFireworks w = Inr (draw p [] w)" using None by (simp add: renderFireworks_def)
  then show ?thesis by blast
next
  case (Some f)
  then have r: "0 \<le> radius (particle1 f)" "0 \<le> radius (particle2 f)" "0 \<le> radius (particle3 f)"
    using assms(2) by simp_all
  have dd: "\<And>a b v. draw p a (draw p b v) = draw p (b @ a) v" by (simp add: draw_def)
  show ?thesis using Some assms(1) r
    by (simp add: renderFireworks_def renderParticle_ok dd del: append.simps) blast
qed

lemma renderEndOfGamePopover_ok:
  assumes "ctx w = Ctx p"
    and "case fireworks w of None \<Rightarrow> True
         | Some f \<Rightarrow> 0 \<le> radius (particle1 f) \<and> 0 \<le> radius (particle2 f) \<and> 0 \<le> radius (particle3 f)"
  shows "\<exists>os. renderEndOfGamePopover w =
           Inr (draw p os (set_height p 700 (set_width p 1280
                  (draw p [ClearRect 0 0 (real (width (nodes w p))) (real (height (nodes w p)))] w))))"
proof -
  let ?w3 = "set_height p 700 (set_width p 1280
                  (draw p [ClearRect 0 0 (real (width (nodes w p))) (real (height (nodes w p)))] w))"
  let ?os = "[SetFillStyle blueGray,
                  FillRect 0 0 (real (width (nodes ?w3 p))) (real (height (nodes ?w3 p))),
                  SetFont ''48pt Amatic SC'',
                  SetTextAlign ''center'',
                  SetFillStyle orange,
                  FillText ''Happy Halloween'' (real (width (nodes ?w3 p)) / 2) (real (height (nodes ?w3 p)) / 2)]"
  have "ctx (draw p ?os ?w3) = Ctx p" using assms(1) by simp
  moreover have "case fireworks (draw p ?os ?w3) of None \<Rightarrow> True
         | Some f \<Rightarrow> 0 \<le> radius (particle1 f) \<and> 0 \<le> radius (particle2 f) \<and> 0 \<le> radius (particle3 f)"
    using assms(2) by simp
  ultimately obtain os where os: "renderFireworks (draw p ?os ?w3) = Inr (draw p os (draw p ?os ?w3))"
    using renderFireworks_ok by blast
  have dd: "\<And>a b v. draw p a (draw p b v) = draw p (b @ a) v" by (simp add: draw_def)
  have "renderEndOfGamePopover w = renderFireworks (draw p ?os ?w3)"
    using assms(1) by (simp add: renderEndOfGamePopover_def Let_def)
  then have "renderEndOfGamePopover w = Inr (draw p (?os @ os) ?w3)"
    using os dd by simp
  then show ?thesis by blast
qed

lemma showGameStartPopover_ready:
  "\<exists>s. showGameStartPopover w = Inr s \<and> popover_ready s"
  by (simp add: showGameStartPopover_def Let_def popover_ready_def)

lemma present_costume_ready:
  "\<exists>s. setCostumeDataForCostume k (addCanvasToDOMWithID ''costume-popover'' w) = Inr s \<and>
       popover_ready s"
proof -
  have "ctx (addCanvasToDOMWithID ''costume-popover'' w) = Ctx (next_node w)" by simp
  from setCostumeData_result [OF this, of k]
  show ?thesis by (simp add: popover_ready_def)
qed

lemma presentGameFinish_result:
  "\<exists>s f. presentGameFinishPopover w = Inr s \<and> ctx s = Ctx (next_node w) \<and>
       container s = container w @ [next_node w] \<and> next_node s = Suc (next_node w) \<and>
       canvas_id (nodes s (next_node w)) = ''game-end-popover'' \<and>
       costumeData s = costumeData w \<and> board s = board w \<and>
       fireworks s = Some f \<and> 0 \<le> radius (particle1 f) \<and> 0 \<le> radius (particle2 f) \<and>
       0 \<le> radius (particle3 f) \<and>
       (\<forall>n. n \<noteq> next_node w \<longrightarrow> nodes s n = nodes w n)"
proof -
  let ?a = "addCanvasToDOMWithID ''game-end-popover'' w"
  let ?f = "\<lparr>particle1 = \<lparr>radius = 50, lineWidth = 0, alpha = 1, center = (0, 0),
                           color = ''rgba(255, 184, 6, %alpha%)''\<rparr>,
             particle2 = \<lparr>radius = 0, lineWidth = 10, alpha = 1, center = (0, 0),
                           color = ''rgba(255, 184, 6, %alpha%)''\<rparr>,
             particle3 = \<lparr>radius = 0, lineWidth = 20, alpha = 1, center = (0, 0),
                           color = ''rgba(255, 184, 6, %alpha%)''\<rparr>,
             fw_canvas = next_node w\<rparr>"
  let ?b = "?a\<lparr>fireworks := Some ?f\<rparr>"
  have sf: "setFireworks ?a = Inr ?b" by (simp add: setFireworks_def)
  have c: "ctx ?b = Ctx (next_node w)" by simp
  have r: "case fireworks ?b of None \<Rightarrow> True
         | Some f \<Rightarrow> 0 \<le> radius (particle1 f) \<and> 0 \<le> radius (particle2 f) \<and> 0 \<le> radius (particle3 f)"
    by simp
  from renderEndOfGamePopover_ok [OF c r] obtain os where
    "renderEndOfGamePopover ?b = Inr (draw (next_node w) os (set_height (next_node w) 700
        (set_width (next_node w) 1280 (draw (next_node w)
          [ClearRect 0 0 (real (width (nodes ?b (next_node w)))) (real (height (nodes ?b (next_node w))))] ?b))))"
    by blast
  then show ?thesis using sf by (simp add: presentGameFinishPopover_def)
qed

lemma presentGameFinish_ready:
  "\<exists>s. presentGameFinishPopover w = Inr s \<and> popover_ready s"
proof -
  obtain s f where "presentGameFinishPopover w = Inr s" "ctx s = Ctx (next_node w)"
    "canvas_id (nodes s (next_node w)) = ''game-end-popover''"
    "fireworks s = Some f" "0 \<le> radius (particle1 f)" "0 \<le> radius (particle2 f)"
    "0 \<le> radius (particle3 f)"
    using presentGameFinish_result [of w] by blast
  then show ?thesis by (simp add: popover_ready_def)
qed

lemma show_result:
  assumes "is_show c"
  shows "\<exists>s. call c w = Inr s \<and> ctx s = Ctx (next_node w) \<and>
       container s = container w @ [next_node w] \<and> next_node s = Suc (next_node w) \<and>
       canvas_id (nodes s (next_node w)) = popover_id c \<and> board s = board w \<and>
       (\<forall>n. n \<noteq> next_node w \<longrightarrow> nodes s n = nodes w n)"
proof (cases c)
  case ShowGameStart
  then show ?thesis using showGameStartPopover_result [of w] by auto
next
  case PresentLaserMan
  then show ?thesis using present_costume_result [of laserman w]
    by (auto simp: presentLaserManPopover_def)
next
  case PresentDwarf
  then show ?thesis using present_costume_result [of dwarf w]
    by (auto simp: presentDwarfPopover_def)
next
  case PresentGhost
  then show ?thesis using present_costume_result [of ghost w]
    by (auto simp: presentGhostPopover_def)
next
  case PresentGameFinish
  then show ?thesis using presentGameFinish_result [of w] by auto
qed (use assms in simp_all)

lemma show_ready:
  assumes "is_show c"
  shows "\<exists>s. call c w = Inr s \<and> popover_ready s"
proof (cases c)
  case ShowGameStart
  then show ?thesis using showGameStartPopover_ready [of w] by simp
next
  case PresentLaserMan
  then show ?thesis using present_costume_ready [of laserman w]
    by (simp add: presentLaserManPopover_def)
next
  case PresentDwarf
  then show ?thesis using present_costume_ready [of dwarf w]
    by (simp add: presentDwarfPopover_def)
next
  case PresentGhost
  then show ?thesis using present_costume_ready [of ghost w]
    by (simp add: presentGhostPopover_def)
next
  case PresentGameFinish
  then show ?thesis using presentGameFinish_ready [of w] by simp
qed (use assms in simp_all)

lemma renderCostumePopover_result:
  assumes "ctx w = Ctx p" "costumeData w = CostumeData d"
  shows "\<exists>w'. renderCostumePopover w = Inr w' \<and>
           costumeData w' = CostumeData (d\<lparr>originalImageYLocation := 0.25 * real (height (nodes w p))\<rparr>) \<and>
           ctx w' = ctx w \<and> container w' = container w \<and> next_node w' = next_node w \<and>
           board w' = board w \<and> fireworks w' = fireworks w \<and>
           (\<forall>n. canvas_id (nodes w' n) = canvas_id (nodes w n) \<and>
                width (nodes w' n) = width (nodes w n) \<and>
                height (nodes w' n) = height (nodes w n)) \<and>
           (\<forall>n. n \<noteq> p \<longrightarrow> nodes w' n = nodes w n)"
  using assms by (simp add: renderCostumePopover_def Let_def draw_def)

subsection \<open>Update, render and remove\<close>

lemma update_costume:
  assumes "ctx w = Ctx p" "canvas_id (nodes w p) = ''costume-popover''"
    "costumeData w = CostumeData d"
  shows "PopoverManager_update dt now w =
    Inr (w\<lparr>costumeData := CostumeData (d\<lparr>imageLocation :=
      (fst (imageLocation d), originalImageYLocation d + 8 * sin (real_of_int now / 800))\<rparr>)\<rparr>)"
  using assms
  by (simp add: PopoverManager_update_def isDisplayingCostumePopover_def costume_update_def)

lemma update_fireworks:
  assumes "ctx w = Ctx p" "canvas_id (nodes w p) = ''game-end-popover''"
  shows "PopoverManager_update dt now w = Inr (updateFireworks dt w)"
  using assms
  by (simp add: PopoverManager_update_def isDisplayingCostumePopover_def
        isDisplayingEndOfGamePopover_def)

lemma update_other:
  assumes "ctx w = Null \<or> (\<exists>p. ctx w = Ctx p \<and> canvas_id (nodes w p) \<noteq> ''costume-popover'' \<and>
             canvas_id (nodes w p) \<noteq> ''game-end-popover'')"
  shows "PopoverManager_update dt now w = Inr w"
  using assms
  by (auto simp: PopoverManager_update_def isDisplayingCostumePopover_def
        isDisplayingEndOfGamePopover_def)

lemma render_other:
  assumes "ctx w = Null \<or> (\<exists>p. ctx w = Ctx p \<and> canvas_id (nodes w p) \<noteq> ''costume-popover'' \<and>
             canvas_id (nodes w p) \<noteq> ''game-end-popover'')"
  shows "PopoverManager_render w = Inr w"
  using assms
  by (auto simp: PopoverManager_render_def isDisplayingCostumePopover_def
        isDisplayingEndOfGamePopover_def)

lemma render_costume:
  assumes "ctx w = Ctx p" "canvas_id (nodes w p) = ''costume-popover''"
  shows "PopoverManager_render w = renderCostumePopover w"
  using assms by (simp add: PopoverManager_render_def isDisplayingCostumePopover_def)

lemma render_end:
  assumes "ctx w = Ctx p" "canvas_id (nodes w p) = ''game-end-popover''"
  shows "PopoverManager_render w = renderEndOfGamePopover w"
  using assms
  by (simp add: PopoverManager_render_def isDisplayingCostumePopover_def
        isDisplayingEndOfGamePopover_def)

lemma PopoverManager_update_ok:
  assumes "popover_ready w"
  shows "\<exists>w'. PopoverManager_update dt now w = Inr w' \<and> ctx w' = ctx w \<and>
           container w' = container w \<and> next_node w' = next_node w \<and> nodes w' = nodes w \<and>
           board w' = board w \<and> (0 \<le> dt \<longrightarrow> popover_ready w')"
proof (cases "ctx w")
  case Undefined
  then show ?thesis using assms by (simp add: popover_ready_def)
next
  case Null
  then show ?thesis using assms update_other [of w dt now] by simp
next
  case (Ctx p)
  consider (costume) "canvas_id (nodes w p) = ''costume-popover''"
    | (finish) "canvas_id (nodes w p) = ''game-end-popover''"
    | (other) "canvas_id (nodes w p) \<noteq> ''costume-popover''"
        "canvas_id (nodes w p) \<noteq> ''game-end-popover''"
    by blast
  then show ?thesis
  proof cases
    case costume
    then obtain d where d: "costumeData w = CostumeData d"
      using assms Ctx by (auto simp: popover_ready_def split: costume_data.splits)
    show ?thesis using update_costume [OF Ctx costume d, of dt now] Ctx costume
      by (simp add: popover_ready_def)
  next
    case finish
    have u: "PopoverManager_update dt now w = Inr (updateFireworks dt w)"
      using update_fireworks [OF Ctx finish] .
    have "0 \<le> dt \<Longrightarrow> popover_ready (updateFireworks dt w)"
    proof (cases "fireworks w")
      case None
      then show ?thesis using assms by (simp add: updateFireworks_None)
    next
      case (Some f)
      assume dt: "0 \<le> dt"
      have "0 \<le> radius (particle1 f)" "0 \<le> radius (particle2 f)" "0 \<le> radius (particle3 f)"
        using assms Ctx finish Some by (simp_all add: popover_ready_def)
      from updateFireworks_radii [OF dt Some this]
      show ?thesis using Ctx finish by (auto simp: popover_ready_def)
    qed
    then show ?thesis using u by simp
  next
    case other
    then show ?thesis using assms Ctx update_other [of w dt now] by simp
  qed
qed

lemma PopoverManager_render_ok:
  assumes "popover_ready w"
  shows "\<exists>w'. PopoverManager_render w = Inr w' \<and> ctx w' = ctx w \<and>
           container w' = container w \<and> next_node w' = next_node w \<and>
           board w' = board w \<and> fireworks w' = fireworks w \<and>
           (\<forall>n. canvas_id (nodes w' n) = canvas_id (nodes w n)) \<and> popover_ready w'"
proof (cases "ctx w")
  case Undefined
  then show ?thesis using assms by (simp add: popover_ready_def)
next
  case Null
  then show ?thesis using assms render_other [of w] by simp
next
  case (Ctx p)
  consider (costume) "canvas_id (nodes w p) = ''costume-popover''"
    | (finish) "canvas_id (nodes w p) = ''game-end-popover''"
    | (other) "canvas_id (nodes w p) \<noteq> ''costume-popover''"
        "canvas_id (nodes w p) \<noteq> ''game-end-popover''"
    by blast
  then show ?thesis
  proof cases
    case costume
    then obtain d where d: "costumeData w = CostumeData d"
      using assms Ctx by (auto simp: popover_ready_def split: costume_data.splits)
    from renderCostumePopover_result [OF Ctx d] obtain w' where
      "renderCostumePopover w = Inr w'"
      "costumeData w' = CostumeData (d\<lparr>originalImageYLocation := 0.25 * real (height (nodes w p))\<rparr>)"
      "ctx w' = ctx w" "container w' = container w" "next_node w' = next_node w"
      "board w' = board w" "fireworks w' = fireworks w"
      "\<forall>n. canvas_id (nodes w' n) = canvas_id (nodes w n)"
      by blast
    then show ?thesis using render_costume [OF Ctx costume] Ctx costume
      by (simp add: popover_ready_def)
  next
    case finish
    have r: "case fireworks w of None \<Rightarrow> True
         | Some f \<Rightarrow> 0 \<le> radius (particle1 f) \<and> 0 \<le> radius (particle2 f) \<and> 0 \<le> radius (particle3 f)"
      using assms Ctx finish by (simp add: popover_ready_def)
    from renderEndOfGamePopover_ok [OF Ctx r] obtain os where
      "renderEndOfGamePopover w =
           Inr (draw p os (set_height p 700 (set_width p 1280
                  (draw p [ClearRect 0 0 (real (width (nodes w p))) (real (height (nodes w p)))] w))))"
      by blast
    then show ?thesis using render_end [OF Ctx finish] Ctx finish assms
      by (simp add: popover_ready_def)
  next
    case other
    then show ?thesis using assms Ctx render_other [of w] by simp
  qed
qed

lemma remove_Null: "ctx w = Null \<Longrightarrow> removePopover w = Inr w"
  by (simp add: removePopover_def)

lemma remove_active:
  "ctx w = Ctx p \<Longrightarrow> p \<in> set (container w) \<Longrightarrow>
   removePopover w = Inr (w\<lparr>container := remove1 p (container w), ctx := Null\<rparr>)"
  by (simp add: removePopover_def)

lemma remove_ready:
  "popover_ready w \<Longrightarrow> attached_ok w \<Longrightarrow>
   \<exists>w'. removePopover w = Inr w' \<and> ctx w' = Null \<and> popover_ready w' \<and> attached_ok w' \<and>
        removePopover w' = Inr w'"
  by (cases "ctx w")
     (auto simp: removePopover_def popover_ready_def attached_ok_def list_all_iff
           dest: notin_set_remove1)

section \<open>The game-start popover\<close>

lemma static_calls:
  assumes "ctx s = Ctx p" "canvas_id (nodes s p) \<noteq> ''costume-popover''"
    "canvas_id (nodes s p) \<noteq> ''game-end-popover''"
  shows "list_all is_frame_call cs \<Longrightarrow> calls cs s = Inr s"
proof (induction cs)
  case Nil
  show ?case by simp
next
  case (Cons c cs)
  have o: "ctx s = Null \<or> (\<exists>p. ctx s = Ctx p \<and> canvas_id (nodes s p) \<noteq> ''costume-popover'' \<and>
             canvas_id (nodes s p) \<noteq> ''game-end-popover'')"
    using assms by simp
  from Cons.prems have "call c s = Inr s"
    by (cases c) (simp_all add: update_other [OF o] render_other [OF o])
  with Cons show ?case by simp
qed

lemma updates_are_frame_calls: "list_all is_update cs \<Longrightarrow> list_all is_frame_call cs"
proof (induction cs)
  case Nil
  show ?case by simp
next
  case (Cons c cs)
  then show ?case by (cases c) simp_all
qed

lemma showGameStartPopover_surface:
  "\<exists>s. showGameStartPopover w = Inr s \<and>
       nodes s (next_node w) =
         \<lparr>canvas_id = ''game-start-popover'', width = 720, height = 600, style_top = None,
          ops = [SetFont ''32pt Amatic SC'',
                 SetTextAlign ''center'',
                 SetFillStyle blueGray,
                 FillRect 0 0 720 600,
                 SetFillStyle gray,
                 FillText ''This is Jack:'' 360 80,
                 FillText ''Help Jack find the'' 360 300,
                 SetFillStyle orange,
                 FillText ''CANDYCORN'' 360 350,
                 SetFillStyle gray,
                 FillText ''he dropped while'' 360 390,
                 FillText ''trick-or-treating!'' 360 430,
                 SetFont ''24pt Amatic SC'',
                 FillText ''[ space ] to continue'' 360 560,
                 SetFillStyle orange,
                 SetFont ''32pt Amatic SC'',
                 FillText ''Jack'' 396 80,
                 SetFont ''24pt Amatic SC'',
                 FillText ''space'' 306 560,
                 DrawImage ''images/jack.png'' 309 60]\<rparr>"
  by (simp add: showGameStartPopover_def Let_def draw_def set_width_def set_height_def
        addCanvasToDOMWithID_def new_canvas_def)

text \<open>
  C9. \<open>showGameStartPopover\<close> always succeeds. It leaves the popover active: the manager
  refers to a new canvas, appended to the container, with id \<open>game-start-popover\<close>, 720 by
  600, on which the background, the seven lines of text, the two orange words and the image
  of Jack have been drawn, in this order; no other canvas is touched. From then on an update
  is a no-op for every \<open>dt\<close> and every clock reading, a render is a no-op as well, and any
  number of updates followed by a render leaves the very state, hence the very surface with
  exactly the content drawn by the show operation, that a render alone leaves.
\<close>

theorem gameStart_static:
  "\<exists>s. showGameStartPopover w = Inr s \<and>
       ctx s = Ctx (next_node w) \<and>
       container s = container w @ [next_node w] \<and>
       nodes s (next_node w) =
         \<lparr>canvas_id = ''game-start-popover'', width = 720, height = 600, style_top = None,
          ops = [SetFont ''32pt Amatic SC'',
                 SetTextAlign ''center'',
                 SetFillStyle blueGray,
                 FillRect 0 0 720 600,
                 SetFillStyle gray,
                 FillText ''This is Jack:'' 360 80,
                 FillText ''Help Jack find the'' 360 300,
                 SetFillStyle orange,
                 FillText ''CANDYCORN'' 360 350,
                 SetFillStyle gray,
                 FillText ''he dropped while'' 360 390,
                 FillText ''trick-or-treating!'' 360 430,
                 SetFont ''24pt Amatic SC'',
                 FillText ''[ space ] to continue'' 360 560,
                 SetFillStyle orange,
                 SetFont ''32pt Amatic SC'',
                 FillText ''Jack'' 396 80,
                 SetFont ''24pt Amatic SC'',
                 FillText ''space'' 306 560,
                 DrawImage ''images/jack.png'' 309 60]\<rparr> \<and>
       (\<forall>n. n \<noteq> next_node w \<longrightarrow> nodes s n = nodes w n) \<and>
       (\<forall>dt now. PopoverManager_update dt now s = Inr s) \<and>
       PopoverManager_render s = Inr s \<and>
       (\<forall>cs. list_all is_update cs \<longrightarrow>
             calls (cs @ [Render]) s = calls [Render] s \<and> calls (cs @ [Render]) s = Inr s)"
proof -
  obtain s where s: "showGameStartPopover w = Inr s" "ctx s = Ctx (next_node w)"
    "canvas_id (nodes s (next_node w)) = ''game-start-popover''"
    "container s = container w @ [next_node w]"
    "\<forall>n. n \<noteq> next_node w \<longrightarrow> nodes s n = nodes w n"
    using showGameStartPopover_result [of w] by blast
  have surface: "nodes s (next_node w) =
         \<lparr>canvas_id = ''game-start-popover'', width = 720, height = 600, style_top = None,
          ops = [SetFont ''32pt Amatic SC'',
                 SetTextAlign ''center'',
                 SetFillStyle blueGray,
                 FillRect 0 0 720 600,
                 SetFillStyle gray,
                 FillText ''This is Jack:'' 360 80,
                 FillText ''Help Jack find the'' 360 300,
                 SetFillStyle orange,
                 FillText ''CANDYCORN'' 360 350,
                 SetFillStyle gray,
                 FillText ''he dropped while'' 360 390,
                 FillText ''trick-or-treating!'' 360 430,
                 SetFont ''24pt Amatic SC'',
                 FillText ''[ space ] to continue'' 360 560,
                 SetFillStyle orange,
                 SetFont ''32pt Amatic SC'',
                 FillText ''Jack'' 396 80,
                 SetFont ''24pt Amatic SC'',
                 FillText ''space'' 306 560,
                 DrawImage ''images/jack.png'' 309 60]\<rparr>"
    using showGameStartPopover_surface [of w] s(1) by auto
  have ne: "canvas_id (nodes s (next_node w)) \<noteq> ''costume-popover''"
    "canvas_id (nodes s (next_node w)) \<noteq> ''game-end-popover''"
    using s(3) by simp_all
  have o: "ctx s = Null \<or> (\<exists>p. ctx s = Ctx p \<and> canvas_id (nodes s p) \<noteq> ''costume-popover'' \<and>
             canvas_id (nodes s p) \<noteq> ''game-end-popover'')"
    using s(2) ne by simp
  have r: "PopoverManager_render s = Inr s" using render_other [OF o] .
  have u: "\<forall>dt now. PopoverManager_update dt now s = Inr s" using update_other [OF o] by simp
  have c: "\<forall>cs. list_all is_update cs \<longrightarrow>
             calls (cs @ [Render]) s = calls [Render] s \<and> calls (cs @ [Render]) s = Inr s"
  proof (intro allI impI)
    fix cs assume "list_all is_update cs"
    then have "list_all is_frame_call (cs @ [Render])"
      using updates_are_frame_calls by simp
    then have "calls (cs @ [Render]) s = Inr s" using static_calls [OF s(2) ne] by blast
    then show "calls (cs @ [Render]) s = calls [Render] s \<and> calls (cs @ [Render]) s = Inr s"
      using r by simp
  qed
  show ?thesis
    by (rule exI [of _ s]) (intro conjI s(1) s(2) s(4) surface s(5) u r c)
qed

theorem gameStart_static_witness:
  "\<exists>s. showGameStartPopover world0 = Inr s \<and> ctx s = Ctx 1 \<and> container s = [0, 1] \<and>
       canvas_id (nodes s 1) = ''game-start-popover'' \<and> width (nodes s 1) = 720 \<and>
       height (nodes s 1) = 600 \<and> length (ops (nodes s 1)) = 20 \<and>
       calls [Update (1 / 60) 16, Update (1 / 30) 50, Render] s = calls [Render] s \<and>
       calls [Update (1 / 60) 16, Update (1 / 30) 50, Render] s = Inr s"
proof -
  obtain s where s: "showGameStartPopover world0 = Inr s"
    "ctx s = Ctx (next_node world0)" "container s = container world0 @ [next_node world0]"
    "nodes s (next_node world0) =
         \<lparr>canvas_id = ''game-start-popover'', width = 720, height = 600, style_top = None,
          ops = [SetFont ''32pt Amatic SC'',
                 SetTextAlign ''center'',
                 SetFillStyle blueGray,
                 FillRect 0 0 720 600,
                 SetFillStyle gray,
                 FillText ''This is Jack:'' 360 80,
                 FillText ''Help Jack find the'' 360 300,
                 SetFillStyle orange,
                 FillText ''CANDYCORN'' 360 350,
                 SetFillStyle gray,
                 FillText ''he dropped while'' 360 390,
                 FillText ''trick-or-treating!'' 360 430,
                 SetFont ''24pt Amatic SC'',
                 FillText ''[ space ] to continue'' 360 560,
                 SetFillStyle orange,
                 SetFont ''32pt Amatic SC'',
                 FillText ''Jack'' 396 80,
                 SetFont ''24pt Amatic SC'',
                 FillText ''space'' 306 560,
                 DrawImage ''images/jack.png'' 309 60]\<rparr>"
    "\<forall>cs. list_all is_update cs \<longrightarrow>
             calls (cs @ [Render]) s = calls [Render] s \<and> calls (cs @ [Render]) s = Inr s"
    using gameStart_static [of world0] by blast
  have shown: "ctx s = Ctx 1 \<and> container s = [0, 1] \<and>
       canvas_id (nodes s 1) = ''game-start-popover'' \<and> width (nodes s 1) = 720 \<and>
       height (nodes s 1) = 600 \<and> length (ops (nodes s 1)) = 20"
    using s(2,3,4) by (simp add: world0_def)
  have "list_all is_update [Update (1 / 60) 16, Update (1 / 30) 50]" by simp
  with s(5) have "calls ([Update (1 / 60) 16, Update (1 / 30) 50] @ [Render]) s = calls [Render] s \<and>
     calls ([Update (1 / 60) 16, Update (1 / 30) 50] @ [Render]) s = Inr s" by blast
  moreover have "[Update (1 / 60) 16, Update (1 / 30) 50] @ [Render] =
      [Update (1 / 60) 16, Update (1 / 30) 50, Render]" by simp
  ultimately have "calls [Update (1 / 60) 16, Update (1 / 30) 50, Render] s = calls [Render] s \<and>
     calls [Update (1 / 60) 16, Update (1 / 30) 50, Render] s = Inr s" by metis
  with s(1) shown show ?thesis by blast
qed

section \<open>The costume popover\<close>

lemma costume_frames:
  assumes "list_all is_frame_call cs"
    and "ctx w = Ctx p" "canvas_id (nodes w p) = ''costume-popover''"
    and "costumeData w = CostumeData d"
    and "originalImageYLocation d = 0.25 * real (height (nodes w p))"
  shows "\<exists>w' d'. calls cs w = Inr w' \<and> ctx w' = Ctx p \<and>
           canvas_id (nodes w' p) = ''costume-popover'' \<and>
           height (nodes w' p) = height (nodes w p) \<and>
           costumeData w' = CostumeData d' \<and>
           originalImageYLocation d' = 0.25 * real (height (nodes w p)) \<and>
           costume d' = costume d \<and> caption d' = caption d \<and> spriteURL d' = spriteURL d"
  using assms
proof (induction cs arbitrary: w d)
  case Nil
  then show ?case by simp
next
  case (Cons c cs)
  from Cons.prems(1) have rest: "list_all is_frame_call cs" by simp
  have step: "\<exists>w1 d1. call c w = Inr w1 \<and> ctx w1 = Ctx p \<and>
           canvas_id (nodes w1 p) = ''costume-popover'' \<and>
           height (nodes w1 p) = height (nodes w p) \<and>
           costumeData w1 = CostumeData d1 \<and>
           originalImageYLocation d1 = 0.25 * real (height (nodes w p)) \<and>
           costume d1 = costume d \<and> caption d1 = caption d \<and> spriteURL d1 = spriteURL d"
  proof (cases c)
    case (Update dt now)
    then show ?thesis
      using update_costume [OF Cons.prems(2,3,4), of dt now] Cons.prems(2,3,5) by simp
  next
    case Render
    from renderCostumePopover_result [OF Cons.prems(2,4)] obtain w1 where
      "renderCostumePopover w = Inr w1"
      "costumeData w1 = CostumeData (d\<lparr>originalImageYLocation := 0.25 * real (height (nodes w p))\<rparr>)"
      "ctx w1 = ctx w"
      "\<forall>n. canvas_id (nodes w1 n) = canvas_id (nodes w n) \<and>
                width (nodes w1 n) = width (nodes w n) \<and>
                height (nodes w1 n) = height (nodes w n)"
      by blast
    then show ?thesis using Render render_costume [OF Cons.prems(2,3)] Cons.prems(2,3) by simp
  qed (use Cons.prems(1) in simp_all)
  then obtain w1 d1 where w1: "call c w = Inr w1" "ctx w1 = Ctx p"
           "canvas_id (nodes w1 p) = ''costume-popover''"
           "height (nodes w1 p) = height (nodes w p)"
           "costumeData w1 = CostumeData d1"
           "originalImageYLocation d1 = 0.25 * real (height (nodes w p))"
           "costume d1 = costume d" "caption d1 = caption d" "spriteURL d1 = spriteURL d"
    by blast
  have b: "originalImageYLocation d1 = 0.25 * real (height (nodes w1 p))"
    using w1(4,6) by simp
  from Cons.IH [OF rest w1(2,3,5) b] w1 show ?case by simp
qed

lemma calls_append:
  "calls (cs @ ds) w = and_then (calls cs w) (calls ds)"
proof (induction cs arbitrary: w)
  case Nil
  show ?case by simp
next
  case (Cons c cs)
  show ?case
  proof (cases "call c w")
    case (Inl e)
    then show ?thesis by simp
  next
    case (Inr v)
    then show ?thesis using Cons.IH [of v] by simp
  qed
qed

text \<open>
  C10. While a costume popover is on display, \<open>render\<close> succeeds and writes a quarter of the
  popover canvas's height into \<open>originalImageYLocation\<close>, leaving every other field of
  \<open>costumeData\<close> as it was. From then on, through any further updates and renders, the base
  stays at that value, costume, caption and sprite URL stay the same, and every update sets
  \<open>imageLocation.y\<close> to a quarter of the height plus \<open>8 * sin (now / 800)\<close>.
\<close>

theorem render_overwrites_base:
  assumes "ctx w = Ctx p" "canvas_id (nodes w p) = ''costume-popover''"
    and "costumeData w = CostumeData d"
  shows "\<exists>w'. PopoverManager_render w = Inr w' \<and>
     costumeData w' =
       CostumeData (d\<lparr>originalImageYLocation := 0.25 * real (height (nodes w p))\<rparr>) \<and>
     (\<forall>cs dt now. list_all is_frame_call cs \<longrightarrow>
        (\<exists>w'' d''. calls (cs @ [Update dt now]) w' = Inr w'' \<and>
           costumeData w'' = CostumeData d'' \<and>
           originalImageYLocation d'' = 0.25 * real (height (nodes w p)) \<and>
           snd (imageLocation d'') =
             0.25 * real (height (nodes w p)) + 8 * sin (real_of_int now / 800) \<and>
           costume d'' = costume d \<and> caption d'' = caption d \<and> spriteURL d'' = spriteURL d))"
proof -
  let ?d1 = "d\<lparr>originalImageYLocation := 0.25 * real (height (nodes w p))\<rparr>"
  from renderCostumePopover_result [OF assms(1,3)] obtain w' where w':
      "renderCostumePopover w = Inr w'"
      "costumeData w' = CostumeData ?d1"
      "ctx w' = ctx w"
      "\<forall>n. canvas_id (nodes w' n) = canvas_id (nodes w n) \<and>
                width (nodes w' n) = width (nodes w n) \<and>
                height (nodes w' n) = height (nodes w n)"
    by blast
  have c': "ctx w' = Ctx p" "canvas_id (nodes w' p) = ''costume-popover''"
    "height (nodes w' p) = height (nodes w p)"
    using w'(3,4) assms(1,2) by simp_all
  have b': "originalImageYLocation ?d1 = 0.25 * real (height (nodes w' p))"
    using c'(3) by simp
  have later: "\<exists>w'' d''. calls (cs @ [Update dt now]) w' = Inr w'' \<and>
           costumeData w'' = CostumeData d'' \<and>
           originalImageYLocation d'' = 0.25 * real (height (nodes w p)) \<and>
           snd (imageLocation d'') =
             0.25 * real (height (nodes w p)) + 8 * sin (real_of_int now / 800) \<and>
           costume d'' = costume d \<and> caption d'' = caption d \<and> spriteURL d'' = spriteURL d"
    if fr: "list_all is_frame_call cs" for cs dt now
  proof -
    from costume_frames [OF fr c'(1,2) w'(2) b'] obtain v dv where v:
      "calls cs w' = Inr v" "ctx v = Ctx p" "canvas_id (nodes v p) = ''costume-popover''"
      "costumeData v = CostumeData dv"
      "originalImageYLocation dv = 0.25 * real (height (nodes w' p))"
      "costume dv = costume ?d1" "caption dv = caption ?d1" "spriteURL dv = spriteURL ?d1"
      by blast
    show ?thesis
      using update_costume [OF v(2,3,4), of dt now] v(1,5,6,7,8) c'(3)
      by (simp add: calls_append)
  qed
  show ?thesis
    using render_costume [OF assms(1,2)] w'(1,2) later by simp
qed


lemma addCanvas_costume_dims:
  "board w \<noteq> next_node w \<Longrightarrow>
   height (nodes (addCanvasToDOMWithID ''costume-popover'' w) (next_node w)) =
     canvas_dimension 150 (height (nodes w (board w))) \<and>
   width (nodes (addCanvasToDOMWithID ''costume-popover'' w) (next_node w)) =
     canvas_dimension 300 (width (nodes w (board w)))"
  by (simp add: addCanvasToDOMWithID_def Let_def set_width_def set_height_def)

lemma world0_fields [simp]:
  "next_node world0 = 1" "board world0 = 0" "container world0 = [0]" "ctx world0 = Undefined"
  "height (nodes world0 0) = 606" "width (nodes world0 0) = 505"
  "costumeData world0 = NoCostumeData" "fireworks world0 = None"
  by (simp_all add: world0_def)

lemma dwarf_on_world0:
  "\<exists>s d. presentDwarfPopover world0 = Inr s \<and> ctx s = Ctx 1 \<and>
     canvas_id (nodes s 1) = ''costume-popover'' \<and> height (nodes s 1) = 606 \<and>
     costumeData s = CostumeData d \<and> costume d = ''DWARF'' \<and>
     spriteURL d = ''images/dwarf-red.png'' \<and> caption d = ''Rocks were meant for smashing.'' \<and>
     originalImageYLocation d = 60 \<and> snd (imageLocation d) = 60 \<and> container s = [0, 1]"
proof -
  have c: "ctx (addCanvasToDOMWithID ''costume-popover'' world0) = Ctx (next_node world0)"
    by (rule addCanvas_ctx)
  have h: "height (nodes (addCanvasToDOMWithID ''costume-popover'' world0) (next_node world0)) =
      canvas_dimension 150 (height (nodes world0 (board world0)))"
    using addCanvas_costume_dims [of world0] by simp
  show ?thesis
    using setCostumeData_result [OF c, of dwarf] h
      addCanvas_canvas_id [of "''costume-popover''" world0]
      addCanvas_container [of "''costume-popover''" world0]
    by (simp add: presentDwarfPopover_def)
qed

theorem render_overwrites_base_witness:
  "\<exists>s w' w'' d''. presentDwarfPopover world0 = Inr s \<and> PopoverManager_render s = Inr w' \<and>
     calls [Render, Update (1 / 60) 0] w' = Inr w'' \<and> costumeData w'' = CostumeData d'' \<and>
     originalImageYLocation d'' = 303 / 2 \<and> snd (imageLocation d'') = 303 / 2 \<and>
     costume d'' = ''DWARF''"
proof -
  obtain s d where s: "presentDwarfPopover world0 = Inr s" "ctx s = Ctx 1"
     "canvas_id (nodes s 1) = ''costume-popover''" "height (nodes s 1) = 606"
     "costumeData s = CostumeData d" "costume d = ''DWARF''"
    using dwarf_on_world0 by blast
  from render_overwrites_base [OF s(2,3,5)] obtain w' where w':
    "PopoverManager_render s = Inr w'"
    "\<forall>cs dt now. list_all is_frame_call cs \<longrightarrow>
        (\<exists>w'' d''. calls (cs @ [Update dt now]) w' = Inr w'' \<and>
           costumeData w'' = CostumeData d'' \<and>
           originalImageYLocation d'' = 0.25 * real (height (nodes s 1)) \<and>
           snd (imageLocation d'') =
             0.25 * real (height (nodes s 1)) + 8 * sin (real_of_int now / 800) \<and>
           costume d'' = costume d \<and> caption d'' = caption d \<and> spriteURL d'' = spriteURL d)"
    by blast
  have "list_all is_frame_call [Render]" by simp
  with w'(2) obtain w'' d'' where
    "calls ([Render] @ [Update (1 / 60) 0]) w' = Inr w''" "costumeData w'' = CostumeData d''"
    "originalImageYLocation d'' = 0.25 * real (height (nodes s 1))"
    "snd (imageLocation d'') = 0.25 * real (height (nodes s 1)) + 8 * sin (real_of_int 0 / 800)"
    "costume d'' = costume d"
    by blast
  then have "calls [Render, Update (1 / 60) 0] w' = Inr w'' \<and> costumeData w'' = CostumeData d'' \<and>
     originalImageYLocation d'' = 303 / 2 \<and> snd (imageLocation d'') = 303 / 2 \<and>
     costume d'' = ''DWARF''"
    using s(4,6) by simp
  with s(1) w'(1) show ?thesis by blast
qed

lemma and_then_calls_Nil [simp]: "and_then r (calls []) = r"
  by (cases r) simp_all

lemma costume_call_cases:
  "popover_id c = ''costume-popover'' \<Longrightarrow>
   call c v = setCostumeDataForCostume laserman (addCanvasToDOMWithID ''costume-popover'' v) \<or>
   call c v = setCostumeDataForCostume dwarf (addCanvasToDOMWithID ''costume-popover'' v) \<or>
   call c v = setCostumeDataForCostume ghost (addCanvasToDOMWithID ''costume-popover'' v)"
  by (cases c)
     (simp_all add: presentLaserManPopover_def presentDwarfPopover_def presentGhostPopover_def)

text \<open>
  C5, as amended. While a costume popover is on display, an update succeeds and sets
  \<open>imageLocation.y\<close> to \<open>originalImageYLocation + 8 * sin (now / 800)\<close>, where \<open>now\<close> is the
  clock reading and \<open>dt\<close> plays no part; two updates at the same reading, on states with the
  same \<open>originalImageYLocation\<close>, give the same \<open>imageLocation.y\<close>. The stored base is 60
  when one of the three costume popovers has just been shown, and a quarter of the popover
  canvas's height once a render has run.
\<close>

theorem costume_oscillation:
  assumes "ctx w = Ctx p" "canvas_id (nodes w p) = ''costume-popover''"
    and "costumeData w = CostumeData d"
  shows "PopoverManager_update dt now w =
      Inr (w\<lparr>costumeData := CostumeData (d\<lparr>imageLocation :=
        (fst (imageLocation d), originalImageYLocation d + 8 * sin (real_of_int now / 800))\<rparr>)\<rparr>) \<and>
    (\<forall>w2 p2 d2 dt2. ctx w2 = Ctx p2 \<and> canvas_id (nodes w2 p2) = ''costume-popover'' \<and>
        costumeData w2 = CostumeData d2 \<and>
        originalImageYLocation d2 = originalImageYLocation d \<longrightarrow>
        map_sum id imageLocation_y (PopoverManager_update dt2 now w2) =
        map_sum id imageLocation_y (PopoverManager_update dt now w)) \<and>
    (\<forall>c v. popover_id c = ''costume-popover'' \<longrightarrow>
        (\<exists>s d0. call c v = Inr s \<and> costumeData s = CostumeData d0 \<and>
           originalImageYLocation d0 = 60)) \<and>
    (\<exists>w' d'. PopoverManager_render w = Inr w' \<and> costumeData w' = CostumeData d' \<and>
        originalImageYLocation d' = 0.25 * real (height (nodes w p)))"
proof -
  have u: "PopoverManager_update dt now w =
      Inr (w\<lparr>costumeData := CostumeData (d\<lparr>imageLocation :=
        (fst (imageLocation d), originalImageYLocation d + 8 * sin (real_of_int now / 800))\<rparr>)\<rparr>)"
    using update_costume [OF assms] .
  have same: "map_sum id imageLocation_y (PopoverManager_update dt2 now w2) =
        map_sum id imageLocation_y (PopoverManager_update dt now w)"
    if "ctx w2 = Ctx p2" "canvas_id (nodes w2 p2) = ''costume-popover''"
       "costumeData w2 = CostumeData d2" "originalImageYLocation d2 = originalImageYLocation d"
    for w2 p2 d2 dt2
    using update_costume [OF that(1,2,3), of dt2 now] u that(4)
    by (simp add: imageLocation_y_def)
  have shown: "\<exists>s d0. call c v = Inr s \<and> costumeData s = CostumeData d0 \<and>
           originalImageYLocation d0 = 60"
    if "popover_id c = ''costume-popover''" for c v
    using costume_call_cases [OF that, of v] present_costume_result [of laserman v]
      present_costume_result [of dwarf v] present_costume_result [of ghost v]
    by metis
  have rendered: "\<exists>w' d'. PopoverManager_render w = Inr w' \<and> costumeData w' = CostumeData d' \<and>
        originalImageYLocation d' = 0.25 * real (height (nodes w p))"
    using renderCostumePopover_result [OF assms(1,3)] render_costume [OF assms(1,2)]
    by auto
  show ?thesis using u same shown rendered by blast
qed

theorem costume_oscillation_witness:
  "\<exists>s. presentDwarfPopover world0 = Inr s \<and>
       map_sum id imageLocation_y (PopoverManager_update (1 / 60) 0 s) = Inr (Some 60) \<and>
       map_sum id imageLocation_y (PopoverManager_update 5 0 s) = Inr (Some 60)"
proof -
  obtain s d where s: "presentDwarfPopover world0 = Inr s" "ctx s = Ctx 1"
     "canvas_id (nodes s 1) = ''costume-popover''"
     "costumeData s = CostumeData d" "originalImageYLocation d = 60"
    using dwarf_on_world0 by blast
  have "map_sum id imageLocation_y (PopoverManager_update dt 0 s) = Inr (Some 60)" for dt
    using costume_oscillation [OF s(2,3,4), of dt 0] s(5) by (simp add: imageLocation_y_def)
  with s(1) show ?thesis by blast
qed

text \<open>
  The claim as stated, with the base fixed at 60 for every update, fails once a render has
  run: on the 505 by 606 board, show the dwarf popover, render, update at clock reading 0.
\<close>

theorem costume_base_counterexample:
  "map_sum id imageLocation_y (calls [PresentDwarf, Render, Update (1 / 60) 0] world0) \<noteq>
     Inr (Some (60 + 8 * sin (real_of_int 0 / 800)))"
proof -
  obtain s d where s: "presentDwarfPopover world0 = Inr s" "ctx s = Ctx 1"
     "canvas_id (nodes s 1) = ''costume-popover''" "height (nodes s 1) = 606"
     "costumeData s = CostumeData d"
    using dwarf_on_world0 by blast
  from renderCostumePopover_result [OF s(2,5)] obtain r where r:
    "renderCostumePopover s = Inr r"
    "costumeData r = CostumeData (d\<lparr>originalImageYLocation := 0.25 * real (height (nodes s 1))\<rparr>)"
    "ctx r = ctx s"
    "\<forall>n. canvas_id (nodes r n) = canvas_id (nodes s n) \<and>
                width (nodes r n) = width (nodes s n) \<and>
                height (nodes r n) = height (nodes s n)"
    by blast
  have cr: "ctx r = Ctx 1" "canvas_id (nodes r 1) = ''costume-popover''"
    using r(3,4) s(2,3) by simp_all
  have "calls [PresentDwarf, Render, Update (1 / 60) 0] world0 =
      PopoverManager_update (1 / 60) 0 r"
    using s(1) r(1) render_costume [OF s(2,3)] by simp
  then have "map_sum id imageLocation_y (calls [PresentDwarf, Render, Update (1 / 60) 0] world0) =
      Inr (Some (303 / 2))"
    using update_costume [OF cr r(2), of "1 / 60" 0] s(4) by (simp add: imageLocation_y_def)
  then show ?thesis by simp
qed

section \<open>Removing and replacing popovers\<close>

text \<open>
  C8. On a manager that has never shown a popover \<open>this.ctx\<close> is \<open>undefined\<close>, not \<open>null\<close>:
  the guard \<open>this.ctx === null\<close> does not hold and \<open>removePopover\<close> throws a \<open>TypeError\<close>
  at \<open>this.ctx.canvas\<close>, although no popover is active.
\<close>

theorem removePopover_new_manager: "removePopover (PopoverManager w) = Inl TypeError"
  by (simp add: removePopover_def PopoverManager_def)

lemma removePopover_idempotent:
  assumes "attached_ok w" "ctx w \<noteq> Undefined"
  shows "\<exists>w'. removePopover w = Inr w' \<and> ctx w' = Null \<and> removePopover w' = Inr w' \<and>
           (ctx w = Null \<longrightarrow> w' = w) \<and>
           (\<forall>p. ctx w = Ctx p \<longrightarrow> p \<notin> set (container w') \<and>
                 container w' = remove1 p (container w))"
  using assms
  by (cases "ctx w") (auto simp: removePopover_def attached_ok_def)

lemma show_attached:
  assumes "is_show c" "attached_ok w"
  shows "\<exists>s. call c w = Inr s \<and> attached_ok s"
proof -
  obtain s where s: "call c w = Inr s" "ctx s = Ctx (next_node w)"
       "container s = container w @ [next_node w]" "next_node s = Suc (next_node w)"
    using show_result [OF assms(1), of w] by blast
  have "next_node w \<notin> set (container w)"
    using assms(2) by (auto simp: attached_ok_def list_all_iff)
  then have "attached_ok s"
    using assms(2) s(2,3,4) by (auto simp: attached_ok_def list_all_iff)
  with s(1) show ?thesis by blast
qed

lemma renderParticle_frame:
  assumes "renderParticle p pt w = Inr w'"
  shows "ctx w' = ctx w \<and> container w' = container w \<and> fireworks w' = fireworks w \<and>
         (\<forall>n. n \<noteq> p \<longrightarrow> nodes w' n = nodes w n)"
  using assms by (auto simp: renderParticle_def Let_def split: if_splits)

lemma renderFireworks_frame:
  assumes "ctx w = Ctx p" "renderFireworks w = Inr w'"
  shows "ctx w' = ctx w \<and> container w' = container w \<and>
         (\<forall>n. n \<noteq> p \<longrightarrow> nodes w' n = nodes w n)"
proof (cases "fireworks w")
  case None
  then show ?thesis using assms(2) by (simp add: renderFireworks_def)
next
  case (Some f)
  then have e: "and_then (renderParticle p (particle1 f) w) (\<lambda>w1.
               and_then (renderParticle p (particle2 f) w1) (\<lambda>w2.
               renderParticle p (particle3 f) w2)) = Inr w'"
    using assms by (simp add: renderFireworks_def)
  then obtain w1 where w1: "renderParticle p (particle1 f) w = Inr w1"
    by (cases "renderParticle p (particle1 f) w") simp_all
  with e have e2: "and_then (renderParticle p (particle2 f) w1) (\<lambda>w2.
               renderParticle p (particle3 f) w2) = Inr w'" by simp
  then obtain w2 where w2: "renderParticle p (particle2 f) w1 = Inr w2"
    by (cases "renderParticle p (particle2 f) w1") simp_all
  with e2 have w3: "renderParticle p (particle3 f) w2 = Inr w'" by simp
  show ?thesis
    using renderParticle_frame [OF w1] renderParticle_frame [OF w2]
      renderParticle_frame [OF w3] by simp
qed

lemma PopoverManager_update_frame:
  "PopoverManager_update dt now w = Inr w' \<Longrightarrow>
   ctx w' = ctx w \<and> container w' = container w \<and> nodes w' = nodes w"
  by (auto simp: PopoverManager_update_def isDisplayingCostumePopover_def
        isDisplayingEndOfGamePopover_def and_then_def
        split: ctx_ref.splits costume_data.splits if_splits)

lemma PopoverManager_render_frame:
  assumes "ctx w = Ctx p" "PopoverManager_render w = Inr w'"
  shows "ctx w' = Ctx p \<and> container w' = container w \<and>
         (\<forall>n. n \<noteq> p \<longrightarrow> nodes w' n = nodes w n)"
proof -
  consider (costume) "canvas_id (nodes w p) = ''costume-popover''"
    | (finish) "canvas_id (nodes w p) = ''game-end-popover''"
    | (other) "canvas_id (nodes w p) \<noteq> ''costume-popover''"
        "canvas_id (nodes w p) \<noteq> ''game-end-popover''"
    by blast
  then show ?thesis
  proof cases
    case costume
    then have r: "renderCostumePopover w = Inr w'"
      using render_costume [OF assms(1) costume] assms(2) by simp
    then obtain d where d: "costumeData w = CostumeData d"
      using assms(1)
      by (cases "costumeData w") (simp_all add: renderCostumePopover_def Let_def draw_def)
    from renderCostumePopover_result [OF assms(1) d] r assms(1) show ?thesis by auto
  next
    case finish
    then have r: "renderEndOfGamePopover w = Inr w'"
      using render_end [OF assms(1) finish] assms(2) by simp
    let ?w3 = "set_height p 700 (set_width p 1280
                 (draw p [ClearRect 0 0 (real (width (nodes w p))) (real (height (nodes w p)))] w))"
    let ?w4 = "draw p
                 [SetFillStyle blueGray,
                  FillRect 0 0 (real (width (nodes ?w3 p))) (real (height (nodes ?w3 p))),
                  SetFont ''48pt Amatic SC'',
                  SetTextAlign ''center'',
                  SetFillStyle orange,
                  FillText ''Happy Halloween'' (real (width (nodes ?w3 p)) / 2)
                    (real (height (nodes ?w3 p)) / 2)] ?w3"
    have "renderFireworks ?w4 = Inr w'"
      using r assms(1) by (simp add: renderEndOfGamePopover_def Let_def)
    moreover have "ctx ?w4 = Ctx p" using assms(1) by simp
    ultimately have "ctx w' = ctx ?w4 \<and> container w' = container ?w4 \<and>
         (\<forall>n. n \<noteq> p \<longrightarrow> nodes w' n = nodes ?w4 n)"
      using renderFireworks_frame by blast
    then show ?thesis using assms(1) by simp
  next
    case other
    then have "PopoverManager_render w = Inr w"
      using render_other [of w] assms(1) by simp
    then show ?thesis using assms by simp
  qed
qed

lemma frame_calls_keep:
  assumes "list_all is_frame_call cs" "ctx w = Ctx p" "calls cs w = Inr w'"
  shows "ctx w' = Ctx p \<and> container w' = container w \<and>
         (\<forall>n. n \<noteq> p \<longrightarrow> nodes w' n = nodes w n)"
  using assms
proof (induction cs arbitrary: w)
  case Nil
  then show ?case by simp
next
  case (Cons c cs)
  from Cons.prems(3) obtain w1 where w1: "call c w = Inr w1" "calls cs w1 = Inr w'"
    by (cases "call c w") simp_all
  have step: "ctx w1 = Ctx p \<and> container w1 = container w \<and>
         (\<forall>n. n \<noteq> p \<longrightarrow> nodes w1 n = nodes w n)"
  proof (cases c)
    case (Update dt now)
    then show ?thesis using PopoverManager_update_frame [of dt now w w1] w1(1) Cons.prems(2)
      by simp
  next
    case Render
    then show ?thesis using PopoverManager_render_frame [OF Cons.prems(2), of w1] w1(1)
      by simp
  qed (use Cons.prems(1) in simp_all)
  from Cons.prems(1) have rest: "list_all is_frame_call cs" by simp
  from Cons.IH [OF rest _ w1(2)] step show ?case by simp
qed

lemma frame_calls_total:
  assumes "list_all is_frame_call cs" "list_all no_negative_step cs" "popover_ready w"
  shows "\<exists>w'. calls cs w = Inr w'"
  using assms
proof (induction cs arbitrary: w)
  case Nil
  show ?case by simp
next
  case (Cons c cs)
  have "\<exists>w1. call c w = Inr w1 \<and> popover_ready w1"
  proof (cases c)
    case (Update dt now)
    then have "0 \<le> dt" using Cons.prems(2) by simp
    then show ?thesis using PopoverManager_update_ok [OF Cons.prems(3), of dt now] Update
      by auto
  next
    case Render
    then show ?thesis using PopoverManager_render_ok [OF Cons.prems(3)] by auto
  qed (use Cons.prems(1) in simp_all)
  then obtain w1 where w1: "call c w = Inr w1" "popover_ready w1" by blast
  from Cons.prems have "list_all is_frame_call cs" "list_all no_negative_step cs" by simp_all
  from Cons.IH [OF this w1(2)] w1(1) show ?case by simp
qed

text \<open>
  C4, as amended. When a popover is active on a well-formed page and a show operation for
  \<open>B\<close> is called, the call succeeds, the manager refers to the new canvas of \<open>B\<close> only, and
  that canvas is appended to the container; the canvas of the popover that was active is
  not detached and not changed: it is still a child of the container, also after a
  following \<open>removePopover\<close>, which detaches the canvas of \<open>B\<close> alone. The updates and
  renders that follow act on the canvas of \<open>B\<close> only: they complete when no time step is
  negative, and whenever they complete the manager still refers to the canvas of \<open>B\<close>, the
  container is as the show operation left it, every canvas other than the one of \<open>B\<close> is
  unchanged, and a \<open>removePopover\<close> then detaches the canvas of \<open>B\<close> and leaves the one of
  the popover that was active attached and unchanged.
\<close>

theorem show_while_active:
  assumes "attached_ok w" "ctx w = Ctx a" "is_show b"
  shows "\<exists>s. call b w = Inr s \<and> ctx s = Ctx (next_node w) \<and> next_node w \<noteq> a \<and>
           canvas_id (nodes s (next_node w)) = popover_id b \<and>
           container s = container w @ [next_node w] \<and>
           a \<in> set (container s) \<and> nodes s a = nodes w a \<and>
           (\<exists>r. removePopover s = Inr r \<and> ctx r = Null \<and> container r = container w \<and>
                a \<in> set (container r)) \<and>
           (\<forall>cs. list_all is_frame_call cs \<longrightarrow>
              (list_all no_negative_step cs \<longrightarrow> (\<exists>s'. calls cs s = Inr s')) \<and>
              (\<forall>s'. calls cs s = Inr s' \<longrightarrow>
                 ctx s' = Ctx (next_node w) \<and> container s' = container s \<and>
                 a \<in> set (container s') \<and> nodes s' a = nodes w a \<and>
                 (\<forall>n. n \<noteq> next_node w \<longrightarrow> nodes s' n = nodes s n) \<and>
                 (\<exists>r. removePopover s' = Inr r \<and> ctx r = Null \<and>
                      container r = container w \<and> a \<in> set (container r) \<and>
                      nodes r a = nodes w a)))"
proof -
  obtain s where s: "call b w = Inr s" "ctx s = Ctx (next_node w)"
       "container s = container w @ [next_node w]" "next_node s = Suc (next_node w)"
       "canvas_id (nodes s (next_node w)) = popover_id b"
       "\<forall>n. n \<noteq> next_node w \<longrightarrow> nodes s n = nodes w n"
    using show_result [OF assms(3), of w] by blast
  obtain s0 where "call b w = Inr s0" "popover_ready s0"
    using show_ready [OF assms(3), of w] by blast
  with s(1) have ready: "popover_ready s" by simp
  have a: "a \<in> set (container w)" "a < next_node w"
    using assms(1,2) by (auto simp: attached_ok_def list_all_iff)
  have fresh: "next_node w \<notin> set (container w)"
    using assms(1) by (auto simp: attached_ok_def list_all_iff)
  have rm: "remove1 (next_node w) (container w @ [next_node w]) = container w"
    using fresh by (simp add: remove1_append)
  then have "removePopover s =
      Inr (s\<lparr>container := container w, ctx := Null\<rparr>)"
    using s(2,3) by (simp add: removePopover_def)
  then have first: "\<exists>r. removePopover s = Inr r \<and> ctx r = Null \<and> container r = container w \<and>
                a \<in> set (container r)"
    using a(1) by simp
  have total: "\<exists>s'. calls cs s = Inr s'"
    if "list_all is_frame_call cs" "list_all no_negative_step cs" for cs
    using frame_calls_total [OF that ready] .
  have keep: "ctx s' = Ctx (next_node w) \<and> container s' = container s \<and>
                 a \<in> set (container s') \<and> nodes s' a = nodes w a \<and>
                 (\<forall>n. n \<noteq> next_node w \<longrightarrow> nodes s' n = nodes s n) \<and>
                 (\<exists>r. removePopover s' = Inr r \<and> ctx r = Null \<and>
                      container r = container w \<and> a \<in> set (container r) \<and>
                      nodes r a = nodes w a)"
    if fr: "list_all is_frame_call cs" and c: "calls cs s = Inr s'" for cs s'
  proof -
    from frame_calls_keep [OF fr s(2) c] have k: "ctx s' = Ctx (next_node w)"
      "container s' = container s" "\<forall>n. n \<noteq> next_node w \<longrightarrow> nodes s' n = nodes s n"
      by simp_all
    have ia: "a \<in> set (container s')" using k(2) s(3) a(1) by simp
    have na: "nodes s' a = nodes w a" using k(3) s(6) a(2) by simp
    have "removePopover s' = Inr (s'\<lparr>container := container w, ctx := Null\<rparr>)"
      using k(1,2) s(3) rm by (simp add: removePopover_def)
    then have "\<exists>r. removePopover s' = Inr r \<and> ctx r = Null \<and>
                      container r = container w \<and> a \<in> set (container r) \<and>
                      nodes r a = nodes w a"
      using a(1) na by simp
    then show ?thesis using k ia na by simp
  qed
  have later: "\<forall>cs. list_all is_frame_call cs \<longrightarrow>
              (list_all no_negative_step cs \<longrightarrow> (\<exists>s'. calls cs s = Inr s')) \<and>
              (\<forall>s'. calls cs s = Inr s' \<longrightarrow>
                 ctx s' = Ctx (next_node w) \<and> container s' = container s \<and>
                 a \<in> set (container s') \<and> nodes s' a = nodes w a \<and>
                 (\<forall>n. n \<noteq> next_node w \<longrightarrow> nodes s' n = nodes s n) \<and>
                 (\<exists>r. removePopover s' = Inr r \<and> ctx r = Null \<and>
                      container r = container w \<and> a \<in> set (container r) \<and>
                      nodes r a = nodes w a))"
  proof (intro allI impI)
    fix cs assume fr: "list_all is_frame_call cs"
    show "(list_all no_negative_step cs \<longrightarrow> (\<exists>s'. calls cs s = Inr s')) \<and>
              (\<forall>s'. calls cs s = Inr s' \<longrightarrow>
                 ctx s' = Ctx (next_node w) \<and> container s' = container s \<and>
                 a \<in> set (container s') \<and> nodes s' a = nodes w a \<and>
                 (\<forall>n. n \<noteq> next_node w \<longrightarrow> nodes s' n = nodes s n) \<and>
                 (\<exists>r. removePopover s' = Inr r \<and> ctx r = Null \<and>
                      container r = container w \<and> a \<in> set (container r) \<and>
                      nodes r a = nodes w a))"
    proof (rule conjI)
      show "list_all no_negative_step cs \<longrightarrow> (\<exists>s'. calls cs s = Inr s')"
        using total [OF fr] by blast
      show "\<forall>s'. calls cs s = Inr s' \<longrightarrow>
                 ctx s' = Ctx (next_node w) \<and> container s' = container s \<and>
                 a \<in> set (container s') \<and> nodes s' a = nodes w a \<and>
                 (\<forall>n. n \<noteq> next_node w \<longrightarrow> nodes s' n = nodes s n) \<and>
                 (\<exists>r. removePopover s' = Inr r \<and> ctx r = Null \<and>
                      container r = container w \<and> a \<in> set (container r) \<and>
                      nodes r a = nodes w a)"
        using keep [OF fr] by blast
    qed
  qed
  have na: "next_node w \<noteq> a" "a \<in> set (container s)" "nodes s a = nodes w a"
    using a s(3,6) by simp_all
  show ?thesis
    by (rule exI [of _ s]) (intro conjI s(1) s(2) na s(5) s(3) first later)
qed

lemma start_on_world0:
  "\<exists>s. showGameStartPopover world0 = Inr s \<and> ctx s = Ctx 1 \<and> container s = [0, 1] \<and>
       next_node s = 2 \<and> canvas_id (nodes s 1) = ''game-start-popover'' \<and> attached_ok s \<and>
       board s = 0 \<and> nodes s 0 = nodes world0 0"
proof -
  obtain s where s: "showGameStartPopover world0 = Inr s" "ctx s = Ctx (next_node world0)"
       "container s = container world0 @ [next_node world0]"
       "next_node s = Suc (next_node world0)"
       "canvas_id (nodes s (next_node world0)) = ''game-start-popover''"
       "board s = board world0"
       "\<forall>n. n \<noteq> next_node world0 \<longrightarrow> nodes s n = nodes world0 n"
    using showGameStartPopover_result [of world0] by blast
  then have "ctx s = Ctx 1 \<and> container s = [0, 1] \<and>
       next_node s = 2 \<and> canvas_id (nodes s 1) = ''game-start-popover'' \<and> attached_ok s \<and>
       board s = 0 \<and> nodes s 0 = nodes world0 0"
    by (simp add: attached_ok_def)
  with s(1) show ?thesis by blast
qed

theorem show_while_active_witness:
  "\<exists>a s. showGameStartPopover world0 = Inr a \<and> attached_ok a \<and> ctx a = Ctx 1 \<and>
       is_show PresentGhost \<and> call PresentGhost a = Inr s \<and> ctx s = Ctx 2 \<and>
       canvas_id (nodes s 2) = ''costume-popover'' \<and> container s = [0, 1, 2] \<and>
       nodes s 1 = nodes a 1 \<and>
       (\<exists>r. removePopover s = Inr r \<and> ctx r = Null \<and> container r = [0, 1]) \<and>
       (\<exists>s'. calls [Update (1 / 60) 16, Render] s = Inr s' \<and> ctx s' = Ctx 2 \<and>
            container s' = [0, 1, 2] \<and> nodes s' 1 = nodes a 1 \<and>
            (\<exists>r. removePopover s' = Inr r \<and> ctx r = Null \<and> container r = [0, 1] \<and>
                 nodes r 1 = nodes a 1))"
proof -
  obtain a where a: "showGameStartPopover world0 = Inr a" "ctx a = Ctx 1"
    "container a = [0, 1]" "next_node a = 2" "attached_ok a"
    using start_on_world0 by blast
  have sh: "is_show PresentGhost" by simp
  let ?cs = "[Update (1 / 60) 16, Render]"
  have fr: "list_all is_frame_call ?cs" "list_all no_negative_step ?cs" by simp_all
  from show_while_active [OF a(5,2) sh] obtain s where s:
    "call PresentGhost a = Inr s" "ctx s = Ctx (next_node a)"
    "canvas_id (nodes s (next_node a)) = popover_id PresentGhost"
    "container s = container a @ [next_node a]" "nodes s 1 = nodes a 1"
    "\<exists>r. removePopover s = Inr r \<and> ctx r = Null \<and> container r = container a \<and>
         1 \<in> set (container r)"
    "\<forall>cs. list_all is_frame_call cs \<longrightarrow>
              (list_all no_negative_step cs \<longrightarrow> (\<exists>s'. calls cs s = Inr s')) \<and>
              (\<forall>s'. calls cs s = Inr s' \<longrightarrow>
                 ctx s' = Ctx (next_node a) \<and> container s' = container s \<and>
                 1 \<in> set (container s') \<and> nodes s' 1 = nodes a 1 \<and>
                 (\<forall>n. n \<noteq> next_node a \<longrightarrow> nodes s' n = nodes s n) \<and>
                 (\<exists>r. removePopover s' = Inr r \<and> ctx r = Null \<and>
                      container r = container a \<and> 1 \<in> set (container r) \<and>
                      nodes r 1 = nodes a 1))"
    by blast
  from s(7) fr obtain s' where s': "calls ?cs s = Inr s'" by blast
  with s(7) fr(1) have k: "ctx s' = Ctx (next_node a)" "container s' = container s"
    "nodes s' 1 = nodes a 1"
    "\<exists>r. removePopover s' = Inr r \<and> ctx r = Null \<and>
                      container r = container a \<and> 1 \<in> set (container r) \<and>
                      nodes r 1 = nodes a 1"
    by blast+
  have later: "\<exists>s'. calls ?cs s = Inr s' \<and> ctx s' = Ctx 2 \<and>
            container s' = [0, 1, 2] \<and> nodes s' 1 = nodes a 1 \<and>
            (\<exists>r. removePopover s' = Inr r \<and> ctx r = Null \<and> container r = [0, 1] \<and>
                 nodes r 1 = nodes a 1)"
    using s' k s(4) a(3,4) by auto
  have now: "ctx s = Ctx 2 \<and> canvas_id (nodes s 2) = ''costume-popover'' \<and>
       container s = [0, 1, 2] \<and> nodes s 1 = nodes a 1 \<and>
       (\<exists>r. removePopover s = Inr r \<and> ctx r = Null \<and> container r = [0, 1])"
    using s(2,3,4,5,6) a(3,4) by auto
  show ?thesis
    using a(1,5,2) sh s(1) now later by blast
qed

text \<open>
  The claim as stated fails: on the page with the game board alone, show the game-start
  popover and then the dwarf popover. The manager refers to the second canvas, and the
  container holds the board and both popover canvases.
\<close>

theorem show_replaces_counterexample:
  "map_sum id ctx (calls [ShowGameStart, PresentDwarf] world0) = Inr (Ctx 2) \<and>
   map_sum id container (calls [ShowGameStart, PresentDwarf] world0) = Inr [0, 1, 2]"
proof -
  obtain a where a: "showGameStartPopover world0 = Inr a"
    "container a = [0, 1]" "next_node a = 2"
    using start_on_world0 by blast
  have sh: "is_show PresentDwarf" by simp
  obtain s where s: "call PresentDwarf a = Inr s" "ctx s = Ctx (next_node a)"
       "container s = container a @ [next_node a]"
    using show_result [OF sh, of a] by blast
  then show ?thesis using a by simp
qed

section \<open>The update rules of the firework particles\<close>

lemma randomIntegerInRange_snd:
  "snd (randomIntegerInRange lo hi w) = w\<lparr>random_used := Suc (random_used w)\<rparr>"
  by (simp add: randomIntegerInRange_def)

text \<open>
  C6. One update of firework particle 1 with time step \<open>dt\<close>, on the canvas \<open>cv\<close> captured
  by the closure. The radius never changes. If \<open>alpha - 4 * dt\<close> is negative the particle
  restarts: alpha is 1, the line width is 0, the centre is made of two draws of
  \<open>randomIntegerInRange\<close>, integers between 0 and the canvas's width and between 0 and its
  height, the colour is the entry of the three-colour palette picked by a third draw.
  Otherwise alpha has gone down by \<open>4 * dt\<close>, the line width has gone up by
  \<open>100 * 4 * dt\<close>, and centre, colour and the random source are as before.
\<close>

theorem particle1_update_rule:
  "case fireworks_particle1_update dt cv p w of (p', w') \<Rightarrow>
     radius p' = radius p \<and>
     (if alpha p - 4 * dt < 0
      then alpha p' = 1 \<and> lineWidth p' = 0 \<and>
           center p' =
             (fst (randomIntegerInRange 0 (int (width (nodes w cv))) w),
              fst (randomIntegerInRange 0 (int (height (nodes w cv)))
                     (w\<lparr>random_used := Suc (random_used w)\<rparr>))) \<and>
           0 \<le> fst (center p') \<and> fst (center p') \<le> int (width (nodes w cv)) \<and>
           0 \<le> snd (center p') \<and> snd (center p') \<le> int (height (nodes w cv)) \<and>
           color p' =
             colors ! nat (fst (randomIntegerInRange 0 2
                                  (w\<lparr>random_used := Suc (Suc (random_used w))\<rparr>))) \<and>
           color p' \<in> set colors \<and> length colors = 3 \<and>
           w' = w\<lparr>random_used := Suc (Suc (Suc (random_used w)))\<rparr>
      else alpha p' = alpha p - 4 * dt \<and> lineWidth p' = lineWidth p + 100 * 4 * dt \<and>
           center p' = center p \<and> color p' = color p \<and> w' = w)"
proof (cases "alpha p - 4 * dt < 0")
  case False
  then show ?thesis by (simp add: fireworks_particle1_update_def Let_def)
next
  case True
  then show ?thesis
    using restart_bounds [of "width (nodes w cv)" w]
      restart_bounds [of "height (nodes w cv)" "w\<lparr>random_used := Suc (random_used w)\<rparr>"]
      restart_color [of "w\<lparr>random_used := Suc (Suc (random_used w))\<rparr>"]
    by (simp add: fireworks_particle1_update_def Let_def case_prod_beta randomIntegerInRange_snd
          length_colors)
qed

theorem particle1_update_rule_witness:
  "alpha (fst (fireworks_particle1_update 1 0 particle0 world0)) = 1 \<and>
   lineWidth (fst (fireworks_particle1_update 1 0 particle0 world0)) = 0 \<and>
   fst (center (fst (fireworks_particle1_update 1 0 particle0 world0))) \<le> 505 \<and>
   snd (center (fst (fireworks_particle1_update 1 0 particle0 world0))) \<le> 606 \<and>
   color (fst (fireworks_particle1_update 1 0 particle0 world0)) \<in> set colors \<and>
   alpha (fst (fireworks_particle1_update (1 / 8) 0 particle0 world0)) = 1 / 2 \<and>
   lineWidth (fst (fireworks_particle1_update (1 / 8) 0 particle0 world0)) = 50 \<and>
   center (fst (fireworks_particle1_update (1 / 8) 0 particle0 world0)) = (0, 0)"
  using particle1_update_rule [where dt = 1 and cv = 0 and p = particle0 and w = world0]
    particle1_update_rule [where dt = "1 / 8" and cv = 0 and p = particle0 and w = world0]
  by (simp add: particle0_def split: prod.splits)

text \<open>
  C7. One update of firework particle 3 with time step \<open>dt\<close>. Alpha never changes. If the
  line width less \<open>3 * 20 * dt\<close> is negative the particle restarts: the line width is 15,
  the radius is 0, the centre is made of two draws of \<open>randomIntegerInRange\<close> within the
  canvas's width and height, the colour is the palette entry picked by a third draw.
  Otherwise the line width has gone down by \<open>3 * 20 * dt\<close>, the radius has gone up by
  \<open>10 * 20 * dt\<close>, and centre, colour and the random source are as before.
\<close>

theorem particle3_update_rule:
  "case fireworks_particle3_update dt cv p w of (p', w') \<Rightarrow>
     alpha p' = alpha p \<and>
     (if lineWidth p - 3 * 20 * dt < 0
      then lineWidth p' = 15 \<and> radius p' = 0 \<and>
           center p' =
             (fst (randomIntegerInRange 0 (int (width (nodes w cv))) w),
              fst (randomIntegerInRange 0 (int (height (nodes w cv)))
                     (w\<lparr>random_used := Suc (random_used w)\<rparr>))) \<and>
           0 \<le> fst (center p') \<and> fst (center p') \<le> int (width (nodes w cv)) \<and>
           0 \<le> snd (center p') \<and> snd (center p') \<le> int (height (nodes w cv)) \<and>
           color p' =
             colors ! nat (fst (randomIntegerInRange 0 2
                                  (w\<lparr>random_used := Suc (Suc (random_used w))\<rparr>))) \<and>
           color p' \<in> set colors \<and> length colors = 3 \<and>
           w' = w\<lparr>random_used := Suc (Suc (Suc (random_used w)))\<rparr>
      else lineWidth p' = lineWidth p - 3 * 20 * dt \<and> radius p' = radius p + 10 * 20 * dt \<and>
           center p' = center p \<and> color p' = color p \<and> w' = w)"
proof (cases "lineWidth p - 3 * 20 * dt < 0")
  case False
  then show ?thesis by (simp add: fireworks_particle3_update_def Let_def)
next
  case True
  then show ?thesis
    using restart_bounds [of "width (nodes w cv)" w]
      restart_bounds [of "height (nodes w cv)" "w\<lparr>random_used := Suc (random_used w)\<rparr>"]
      restart_color [of "w\<lparr>random_used := Suc (Suc (random_used w))\<rparr>"]
    by (simp add: fireworks_particle3_update_def Let_def case_prod_beta randomIntegerInRange_snd
          length_colors)
qed

theorem particle3_update_rule_witness:
  "lineWidth (fst (fireworks_particle3_update 1 0 (particle0\<lparr>lineWidth := 20\<rparr>) world0)) = 15 \<and>
   radius (fst (fireworks_particle3_update 1 0 (particle0\<lparr>lineWidth := 20\<rparr>) world0)) = 0 \<and>
   color (fst (fireworks_particle3_update 1 0 (particle0\<lparr>lineWidth := 20\<rparr>) world0)) \<in> set colors \<and>
   lineWidth (fst (fireworks_particle3_update (1 / 10) 0 (particle0\<lparr>lineWidth := 20\<rparr>) world0)) = 14 \<and>
   radius (fst (fireworks_particle3_update (1 / 10) 0 (particle0\<lparr>lineWidth := 20\<rparr>) world0)) = 70 \<and>
   center (fst (fireworks_particle3_update (1 / 10) 0 (particle0\<lparr>lineWidth := 20\<rparr>) world0)) = (0, 0)"
  using particle3_update_rule [where dt = 1 and cv = 0 and p = "particle0\<lparr>lineWidth := 20\<rparr>"
      and w = world0]
    particle3_update_rule [where dt = "1 / 10" and cv = 0
      and p = "particle0\<lparr>lineWidth := 20\<rparr>" and w = world0]
  by (simp add: particle0_def split: prod.splits)

section \<open>The engine\<close>

subsection \<open>What update and render do\<close>

lemma emit_fields [simp]:
  "trace (emit e g) = trace g @ [e]" "browser (emit e g) = browser g"
  "lastTime (emit e g) = lastTime g" "currentLevel (emit e g) = currentLevel g"
  "numCols (emit e g) = numCols g" "numRows (emit e g) = numRows g"
  "allEnemies (emit e g) = allEnemies g" "player (emit e g) = player g"
  "laserObstacles (emit e g) = laserObstacles g"
  by (simp_all add: emit_def)

lemma foldl_emit:
  "foldl (\<lambda>s x. emit (f x) s) g xs = g\<lparr>trace := trace g @ map f xs\<rparr>"
proof (induction xs arbitrary: g)
  case Nil
  show ?case by simp
next
  case (Cons x xs)
  show ?case by (simp add: Cons.IH; simp add: emit_def)
qed

lemma updateCanvasDimensions_eq:
  "updateCanvasDimensions g =
     g\<lparr>browser := set_height (board (browser g)) (101 * numRows g)
                   (set_width (board (browser g)) (101 * numCols g) (browser g)),
       trace := trace g @ [SetCanvasWidth (101 * numCols g), SetCanvasHeight (101 * numRows g)]\<rparr>"
  by (simp add: updateCanvasDimensions_def Let_def emit_def)

lemma updateEntities_eq:
  "updateEntities dt g =
     g\<lparr>trace := trace g @ map (\<lambda>enemy. EnemyUpdate enemy dt) (allEnemies g) @
         [case player g of Some p \<Rightarrow> PlayerUpdate p
                         | None \<Rightarrow> ConsoleLog ''Wait for player to initialize''] @
         map (\<lambda>laser. LaserUpdate laser dt) (laserObstacles g)\<rparr>"
  by (cases "player g"; simp add: updateEntities_def Let_def foldl_emit; simp add: emit_def)

lemma renderEntities_eq:
  "renderEntities g =
     g\<lparr>trace := trace g @ map EnemyRender (allEnemies g) @
         [case player g of Some p \<Rightarrow> PlayerRender p
                         | None \<Rightarrow> ConsoleLog ''Wait for player to initialize'']\<rparr>"
  by (cases "player g"; simp add: renderEntities_def Let_def foldl_emit; simp add: emit_def)

lemma update_eq:
  "update dt now g =
     and_then (PopoverManager_update dt now
                (set_height (board (browser g)) (101 * numRows g)
                   (set_width (board (browser g)) (101 * numCols g) (browser g))))
       (\<lambda>w. Inr (g\<lparr>browser := w, trace := trace g @ update_events dt g\<rparr>))"
  by (simp add: update_def Let_def updateCanvasDimensions_eq updateEntities_eq
        updateCollectibles_def updateAnimations_def updatePopover_def checkCollisions_def
        emit_def update_events_def and_then_def split: sum.splits)

lemma render_eq:
  "render g =
     and_then (PopoverManager_render (browser g))
       (\<lambda>w. Inr (g\<lparr>browser := w, trace := trace g @ render_events g\<rparr>))"
  by (simp add: render_def renderBoard_def renderAnimations_def renderEntities_eq
        renderPopover_def emit_def render_events_def and_then_def split: sum.splits)

lemma popover_ready_resize [simp]:
  "popover_ready (set_width p k w) = popover_ready w"
  "popover_ready (set_height p k w) = popover_ready w"
  by (cases "ctx w"; simp add: popover_ready_def)+






lemma update_Inr:
  assumes "update dt now g = Inr g'"
  shows "\<exists>w. PopoverManager_update dt now
                (set_height (board (browser g)) (101 * numRows g)
                   (set_width (board (browser g)) (101 * numCols g) (browser g))) = Inr w \<and>
             g' = g\<lparr>browser := w, trace := trace g @ update_events dt g\<rparr>"
  using assms unfolding update_eq
  by (cases "PopoverManager_update dt now
                (set_height (board (browser g)) (101 * numRows g)
                   (set_width (board (browser g)) (101 * numCols g) (browser g)))") auto

lemma render_Inr:
  assumes "render g = Inr g'"
  shows "\<exists>w. PopoverManager_render (browser g) = Inr w \<and>
             g' = g\<lparr>browser := w, trace := trace g @ render_events g\<rparr>"
  using assms unfolding render_eq
  by (cases "PopoverManager_render (browser g)") auto

lemma update_total:
  assumes "popover_ready (browser g)"
  shows "\<exists>g'. update dt now g = Inr g' \<and> (0 \<le> dt \<longrightarrow> popover_ready (browser g'))"
proof -
  let ?B = "set_height (board (browser g)) (101 * numRows g)
                   (set_width (board (browser g)) (101 * numCols g) (browser g))"
  have "popover_ready ?B" using assms by simp
  from PopoverManager_update_ok [OF this, of dt now]
  show ?thesis unfolding update_eq by auto
qed

lemma render_total:
  assumes "popover_ready (browser g)"
  shows "\<exists>g'. render g = Inr g' \<and> popover_ready (browser g')"
  using PopoverManager_render_ok [OF assms] unfolding render_eq by auto


lemma game0_fields [simp]:
  "numCols game0 = 5" "numRows game0 = 6" "allEnemies game0 = [10, 11]"
  "player game0 = None" "laserObstacles game0 = [20]" "trace game0 = []"
  "lastTime game0 = 0" "browser game0 = world0"
  by (simp_all add: game0_def)

lemma start_ready_on_world0:
  "\<exists>s. showGameStartPopover world0 = Inr s \<and> popover_ready s"
  by (rule showGameStartPopover_ready)


text \<open>
  Beyond that bound the attribute does not hold the product: with 42524429 columns the
  number assigned is \<open>2 ^ 32 + 33\<close> and the width read back is 33, and an assignment of
  \<open>2 ^ 31\<close> leaves the default.
\<close>

lemma canvas_dimension_wraps:
  "canvas_dimension 300 (101 * 42524429) = 33" "canvas_dimension 300 2147483648 = 300"
  "canvas_dimension 150 2147483648 = 150"
  by (simp_all add: canvas_dimension_def)

text \<open>
  C1. In every state in which the popover manager is ready (it has shown a popover at
  least once, as \<open>init\<close> makes sure before the first frame), and for every \<open>dt\<close> that is not
  negative, \<open>update(dt)\<close> followed by \<open>render()\<close> completes, with or without a player, and
  leaves the manager ready for the next frame. The steps performed are exactly those of
  \<open>update_events\<close> followed by those of \<open>render_events\<close>. When the player is absent, each
  enemy and laser is still updated, the board, the animations, each enemy and the popover
  are still rendered, and the player's update and render are each replaced by the log line.
\<close>

theorem update_render_total:
  assumes "0 \<le> dt" "popover_ready (browser g)"
  shows "\<exists>g1 g2. update dt now g = Inr g1 \<and> render g1 = Inr g2 \<and>
     popover_ready (browser g2) \<and>
     trace g2 = trace g @ update_events dt g @ render_events g \<and>
     (player g = None \<longrightarrow>
        update_events dt g =
          [SetCanvasWidth (101 * numCols g), SetCanvasHeight (101 * numRows g)] @
          map (\<lambda>enemy. EnemyUpdate enemy dt) (allEnemies g) @
          [ConsoleLog ''Wait for player to initialize''] @
          map (\<lambda>laser. LaserUpdate laser dt) (laserObstacles g) @
          [UpdateCostumes dt, AnimationQueueUpdate dt, PopoverUpdate dt,
           CheckEnemyCollisions] \<and>
        render_events g =
          [RenderBoard, AnimationQueueRender] @ map EnemyRender (allEnemies g) @
          [ConsoleLog ''Wait for player to initialize'', PopoverRender])"
proof -
  obtain g1 where g1: "update dt now g = Inr g1" "popover_ready (browser g1)"
    using update_total [OF assms(2), of dt now] assms(1) by blast
  obtain g2 where g2: "render g1 = Inr g2" "popover_ready (browser g2)"
    using render_total [OF g1(2)] by blast
  from update_Inr [OF g1(1)] obtain w where
    e1: "g1 = g\<lparr>browser := w, trace := trace g @ update_events dt g\<rparr>" by blast
  from render_Inr [OF g2(1)] obtain v where
    e2: "g2 = g1\<lparr>browser := v, trace := trace g1 @ render_events g1\<rparr>" by blast
  have "render_events g1 = render_events g" using e1 by (simp add: render_events_def)
  then have t: "trace g2 = trace g @ update_events dt g @ render_events g"
    using e1 e2 by simp
  have a: "player g = None \<longrightarrow>
        update_events dt g =
          [SetCanvasWidth (101 * numCols g), SetCanvasHeight (101 * numRows g)] @
          map (\<lambda>enemy. EnemyUpdate enemy dt) (allEnemies g) @
          [ConsoleLog ''Wait for player to initialize''] @
          map (\<lambda>laser. LaserUpdate laser dt) (laserObstacles g) @
          [UpdateCostumes dt, AnimationQueueUpdate dt, PopoverUpdate dt,
           CheckEnemyCollisions] \<and>
        render_events g =
          [RenderBoard, AnimationQueueRender] @ map EnemyRender (allEnemies g) @
          [ConsoleLog ''Wait for player to initialize'', PopoverRender]"
    by (simp add: update_events_def render_events_def)
  show ?thesis
    by (rule exI [of _ g1], rule exI [of _ g2]) (intro conjI g1(1) g2 t a)
qed

theorem update_render_total_witness:
  "\<exists>s g1 g2. showGameStartPopover world0 = Inr s \<and> (0::real) \<le> 1 / 60 \<and>
     popover_ready (browser (game0\<lparr>browser := s\<rparr>)) \<and> player (game0\<lparr>browser := s\<rparr>) = None \<and>
     update (1 / 60) 16 (game0\<lparr>browser := s\<rparr>) = Inr g1 \<and> render g1 = Inr g2 \<and>
     trace g2 =
       [SetCanvasWidth 505, SetCanvasHeight 606, EnemyUpdate 10 (1 / 60),
        EnemyUpdate 11 (1 / 60), ConsoleLog ''Wait for player to initialize'',
        LaserUpdate 20 (1 / 60), UpdateCostumes (1 / 60), AnimationQueueUpdate (1 / 60),
        PopoverUpdate (1 / 60), CheckEnemyCollisions,
        RenderBoard, AnimationQueueRender, EnemyRender 10, EnemyRender 11,
        ConsoleLog ''Wait for player to initialize'', PopoverRender]"
proof -
  obtain s where s: "showGameStartPopover world0 = Inr s" "popover_ready s"
    using start_ready_on_world0 by blast
  let ?g = "game0\<lparr>browser := s\<rparr>"
  have r: "popover_ready (browser ?g)" using s(2) by simp
  have d: "(0::real) \<le> 1 / 60" by simp
  from update_render_total [OF d r, of 16] obtain g1 g2 where
    "update (1 / 60) 16 ?g = Inr g1" "render g1 = Inr g2"
    "trace g2 = trace ?g @ update_events (1 / 60) ?g @ render_events ?g"
    by blast
  then have "update (1 / 60) 16 ?g = Inr g1 \<and> render g1 = Inr g2 \<and>
     trace g2 =
       [SetCanvasWidth 505, SetCanvasHeight 606, EnemyUpdate 10 (1 / 60),
        EnemyUpdate 11 (1 / 60), ConsoleLog ''Wait for player to initialize'',
        LaserUpdate 20 (1 / 60), UpdateCostumes (1 / 60), AnimationQueueUpdate (1 / 60),
        PopoverUpdate (1 / 60), CheckEnemyCollisions,
        RenderBoard, AnimationQueueRender, EnemyRender 10, EnemyRender 11,
        ConsoleLog ''Wait for player to initialize'', PopoverRender]"
    by (simp add: update_events_def render_events_def)
  with s r d show ?thesis by simp
qed

subsection \<open>The loop body\<close>

lemma main_Inr:
  assumes "main now t g = Inr g'"
  shows "\<exists>g1 g2. update (real_of_int (now - lastTime g) / 1000) t g = Inr g1 \<and>
           render g1 = Inr g2 \<and>
           g' = g2\<lparr>lastTime := now, trace := trace g2 @ [RequestAnimationFrame]\<rparr>"
proof (cases "update (real_of_int (now - lastTime g) / 1000) t g")
  case (Inl e)
  then show ?thesis using assms by (simp add: main_def)
next
  case u: (Inr g1)
  show ?thesis
  proof (cases "render g1")
    case (Inl e)
    then show ?thesis using assms u by (simp add: main_def)
  next
    case (Inr g2)
    then show ?thesis using assms u by (auto simp: main_def emit_def)
  qed
qed

lemma main_total:
  assumes "popover_ready (browser g)" "lastTime g \<le> now"
  shows "\<exists>g'. main now t g = Inr g' \<and> popover_ready (browser g') \<and> lastTime g' = now"
proof -
  have dt: "0 \<le> real_of_int (now - lastTime g) / 1000" using assms(2) by simp
  obtain g1 where g1: "update (real_of_int (now - lastTime g) / 1000) t g = Inr g1"
    "popover_ready (browser g1)"
    using update_total [OF assms(1), of "real_of_int (now - lastTime g) / 1000" t] dt by blast
  obtain g2 where g2: "render g1 = Inr g2" "popover_ready (browser g2)"
    using render_total [OF g1(2)] by blast
  show ?thesis using g1(1) g2 by (simp add: main_def)
qed

text \<open>
  C2. Whenever the loop body \<open>main\<close> completes, with \<open>now\<close> its reading of the clock: it
  has run \<open>update\<close> with \<open>dt = (now - lastTime) / 1000\<close> and then \<open>render\<close>, neither of which
  touches \<open>lastTime\<close>; the state it leaves is the one \<open>render\<close> left with \<open>lastTime\<close> set to
  \<open>now\<close> and the request for the next frame as the last event, after the events of the
  update and those of the render. Of the engine's own variables \<open>lastTime\<close> is the only one
  that changes: the level, the entities and the player are as before, and everything else a
  frame changes is changed by \<open>update\<close> and \<open>render\<close>. The body completes whenever the
  popover manager is ready and the clock has not gone back. The quotient is taken over the
  reals.
\<close>

theorem main_frame:
  "(popover_ready (browser g) \<and> lastTime g \<le> now \<longrightarrow> (\<exists>g'. main now t g = Inr g')) \<and>
   (\<forall>g'. main now t g = Inr g' \<longrightarrow>
      (\<exists>g1 g2. update (real_of_int (now - lastTime g) / 1000) t g = Inr g1 \<and>
          render g1 = Inr g2 \<and> lastTime g1 = lastTime g \<and> lastTime g2 = lastTime g \<and>
          g' = g2\<lparr>lastTime := now, trace := trace g2 @ [RequestAnimationFrame]\<rparr>) \<and>
      lastTime g' = now \<and>
      trace g' = trace g @ update_events (real_of_int (now - lastTime g) / 1000) g @
                 render_events g @ [RequestAnimationFrame] \<and>
      currentLevel g' = currentLevel g \<and> numCols g' = numCols g \<and> numRows g' = numRows g \<and>
      allEnemies g' = allEnemies g \<and> player g' = player g \<and>
      laserObstacles g' = laserObstacles g)"
proof -
  let ?dt = "real_of_int (now - lastTime g) / 1000"
  have total: "popover_ready (browser g) \<and> lastTime g \<le> now \<longrightarrow> (\<exists>g'. main now t g = Inr g')"
    using main_total [of g now t] by blast
  have frame: "(\<exists>g1 g2. update ?dt t g = Inr g1 \<and>
          render g1 = Inr g2 \<and> lastTime g1 = lastTime g \<and> lastTime g2 = lastTime g \<and>
          g' = g2\<lparr>lastTime := now, trace := trace g2 @ [RequestAnimationFrame]\<rparr>) \<and>
      lastTime g' = now \<and>
      trace g' = trace g @ update_events ?dt g @ render_events g @ [RequestAnimationFrame] \<and>
      currentLevel g' = currentLevel g \<and> numCols g' = numCols g \<and> numRows g' = numRows g \<and>
      allEnemies g' = allEnemies g \<and> player g' = player g \<and>
      laserObstacles g' = laserObstacles g"
    if "main now t g = Inr g'" for g'
  proof -
    from main_Inr [OF that] obtain g1 g2 where m:
      "update ?dt t g = Inr g1" "render g1 = Inr g2"
      "g' = g2\<lparr>lastTime := now, trace := trace g2 @ [RequestAnimationFrame]\<rparr>"
      by blast
    from update_Inr [OF m(1)] obtain w where
      e1: "g1 = g\<lparr>browser := w, trace := trace g @ update_events ?dt g\<rparr>" by blast
    from render_Inr [OF m(2)] obtain v where
      e2: "g2 = g1\<lparr>browser := v, trace := trace g1 @ render_events g1\<rparr>" by blast
    have re: "render_events g1 = render_events g" using e1 by (simp add: render_events_def)
    have l: "lastTime g1 = lastTime g" "lastTime g2 = lastTime g" using e1 e2 by simp_all
    have first: "\<exists>g1 g2. update ?dt t g = Inr g1 \<and>
          render g1 = Inr g2 \<and> lastTime g1 = lastTime g \<and> lastTime g2 = lastTime g \<and>
          g' = g2\<lparr>lastTime := now, trace := trace g2 @ [RequestAnimationFrame]\<rparr>"
      by (rule exI [of _ g1], rule exI [of _ g2]) (intro conjI m l)
    have rest: "lastTime g' = now \<and>
      trace g' = trace g @ update_events ?dt g @ render_events g @ [RequestAnimationFrame] \<and>
      currentLevel g' = currentLevel g \<and> numCols g' = numCols g \<and> numRows g' = numRows g \<and>
      allEnemies g' = allEnemies g \<and> player g' = player g \<and>
      laserObstacles g' = laserObstacles g"
      using m(3) e1 e2 re by simp
    show ?thesis using first rest by (rule conjI)
  qed
  show ?thesis using total frame by blast
qed

theorem main_frame_witness:
  "\<exists>s g'. showGameStartPopover world0 = Inr s \<and> popover_ready s \<and>
     main 16 17 (game0\<lparr>browser := s\<rparr>) = Inr g' \<and> lastTime g' = 16 \<and>
     trace g' =
       [SetCanvasWidth 505, SetCanvasHeight 606, EnemyUpdate 10 (2 / 125),
        EnemyUpdate 11 (2 / 125), ConsoleLog ''Wait for player to initialize'',
        LaserUpdate 20 (2 / 125), UpdateCostumes (2 / 125), AnimationQueueUpdate (2 / 125),
        PopoverUpdate (2 / 125), CheckEnemyCollisions,
        RenderBoard, AnimationQueueRender, EnemyRender 10, EnemyRender 11,
        ConsoleLog ''Wait for player to initialize'', PopoverRender, RequestAnimationFrame]"
proof -
  obtain s where s: "showGameStartPopover world0 = Inr s" "popover_ready s"
    using start_ready_on_world0 by blast
  let ?g = "game0\<lparr>browser := s\<rparr>"
  have r: "popover_ready (browser ?g) \<and> lastTime ?g \<le> 16" using s(2) by simp
  from main_frame [of ?g 16 17] r obtain g' where g': "main 16 17 ?g = Inr g'" by blast
  with main_frame [of ?g 16 17] have
    "lastTime g' = 16 \<and>
     trace g' = trace ?g @ update_events (real_of_int (16 - lastTime ?g) / 1000) ?g @
                 render_events ?g @ [RequestAnimationFrame]"
    by blast
  then have "lastTime g' = 16 \<and>
     trace g' =
       [SetCanvasWidth 505, SetCanvasHeight 606, EnemyUpdate 10 (2 / 125),
        EnemyUpdate 11 (2 / 125), ConsoleLog ''Wait for player to initialize'',
        LaserUpdate 20 (2 / 125), UpdateCostumes (2 / 125), AnimationQueueUpdate (2 / 125),
        PopoverUpdate (2 / 125), CheckEnemyCollisions,
        RenderBoard, AnimationQueueRender, EnemyRender 10, EnemyRender 11,
        ConsoleLog ''Wait for player to initialize'', PopoverRender, RequestAnimationFrame]"
    by (simp add: update_events_def render_events_def)
  with s g' show ?thesis by blast
qed

subsection \<open>The states the scheduler runs in\<close>

text \<open>
  \<open>init\<close> shows the game-start popover before the first frame, so the manager is ready
  when the first \<open>update\<close> runs; frames and the public operations of the manager keep it
  ready, as long as no time step is negative.
\<close>

lemma init_ready:
  assumes "now0 \<le> now"
  shows "\<exists>g'. init now0 now t g = Inr g' \<and> popover_ready (browser g') \<and> lastTime g' = now"
proof -
  obtain s where s: "showGameStartPopover (browser g) = Inr s" "popover_ready s"
    using showGameStartPopover_ready [of "browser g"] by blast
  let ?g = "g\<lparr>lastTime := now0, currentLevel := 1, browser := s\<rparr>"
  have "popover_ready (browser ?g)" "lastTime ?g \<le> now" using s(2) assms by simp_all
  from main_total [OF this, of t] show ?thesis
    using s(1) by (simp add: init_def reset_def Let_def)
qed

lemma frames_total:
  assumes "popover_ready (browser g)" "sorted (lastTime g # map fst fs)"
  shows "\<exists>g'. frames fs g = Inr g' \<and> popover_ready (browser g')"
  using assms
proof (induction fs arbitrary: g)
  case Nil
  then show ?case by simp
next
  case (Cons f fs)
  obtain now t where f: "f = (now, t)" by (cases f)
  have le: "lastTime g \<le> now" using Cons.prems(2) f by simp
  from main_total [OF Cons.prems(1) le, of t] obtain g1 where g1:
    "main now t g = Inr g1" "popover_ready (browser g1)" "lastTime g1 = now" by blast
  have "sorted (lastTime g1 # map fst fs)" using Cons.prems(2) f g1(3) by simp
  from Cons.IH [OF g1(2) this] show ?case using f g1(1) by simp
qed

lemma attached_ok_same:
  "attached_ok w \<Longrightarrow> ctx w' = ctx w \<Longrightarrow> container w' = container w \<Longrightarrow>
   next_node w' = next_node w \<Longrightarrow> attached_ok w'"
  by (simp add: attached_ok_def split: ctx_ref.splits)

lemma call_ready:
  assumes "popover_ready w" "attached_ok w" "\<forall>dt now. c = Update dt now \<longrightarrow> 0 \<le> dt"
  shows "\<exists>w'. call c w = Inr w' \<and> popover_ready w' \<and> attached_ok w'"
proof (cases "is_show c")
  case True
  obtain s where s: "call c w = Inr s" "attached_ok s"
    using show_attached [OF True assms(2)] by blast
  obtain s' where "call c w = Inr s'" "popover_ready s'"
    using show_ready [OF True, of w] by blast
  with s show ?thesis by simp
next
  case False
  show ?thesis
  proof (cases c)
    case Remove
    then show ?thesis using remove_ready [OF assms(1,2)] by auto
  next
    case (Update dt now)
    then have "0 \<le> dt" using assms(3) by simp
    then obtain w' where w': "PopoverManager_update dt now w = Inr w'" "ctx w' = ctx w"
      "container w' = container w" "next_node w' = next_node w" "popover_ready w'"
      using PopoverManager_update_ok [OF assms(1), of dt now] by blast
    have "attached_ok w'" using attached_ok_same [OF assms(2) w'(2,3,4)] .
    then show ?thesis using w'(1,5) Update by simp
  next
    case Render
    obtain w' where w': "PopoverManager_render w = Inr w'" "ctx w' = ctx w"
      "container w' = container w" "next_node w' = next_node w" "popover_ready w'"
      using PopoverManager_render_ok [OF assms(1)] by blast
    have "attached_ok w'" using attached_ok_same [OF assms(2) w'(2,3,4)] .
    then show ?thesis using w'(1,5) Render by simp
  qed (use False in simp_all)
qed

subsection \<open>A negative time step\<close>

text \<open>
  With a negative \<open>dt\<close> the radius of particle 2 becomes negative and the next render of the
  end-of-game popover throws at \<open>arc\<close>.
\<close>

lemma setFireworks_particle2:
  "ctx w = Ctx p \<Longrightarrow>
   \<exists>s f. setFireworks w = Inr s \<and> fireworks s = Some f \<and> ctx s = Ctx p \<and>
     nodes s = nodes w \<and> radius (particle1 f) = 50 \<and>
     radius (particle2 f) = 0 \<and> alpha (particle2 f) = 1"
  by (simp add: setFireworks_def)

lemma updateFireworks_particle2:
  "fireworks w = Some f \<Longrightarrow>
   \<exists>f'. fireworks (updateFireworks dt w) = Some f' \<and>
     radius (particle1 f') = radius (particle1 f) \<and>
     particle2 f' = fst (fireworks_particle2_update dt (fw_canvas f) (particle2 f)
       (snd (fireworks_particle1_update dt (fw_canvas f) (particle1 f) w)))"
  by (simp add: updateFireworks_def Let_def case_prod_beta particle1_radius)

lemma particle2_negative_dt:
  "dt < 0 \<Longrightarrow> 0 \<le> alpha p \<Longrightarrow> radius p = 0 \<Longrightarrow>
   radius (fst (fireworks_particle2_update dt cv p w)) < 0"
proof -
  assume a: "dt < 0" "0 \<le> alpha p" "radius p = 0"
  then have "\<not> alpha p - 5 * dt < 0" by simp
  then show ?thesis using a by (simp add: fireworks_particle2_update_def Let_def)
qed

lemma renderFireworks_negative_radius:
  assumes "ctx w = Ctx p" "fireworks w = Some f" "0 \<le> radius (particle1 f)"
    "radius (particle2 f) < 0"
  shows "renderFireworks w = Inl IndexSizeError"
  using assms by (simp add: renderFireworks_def renderParticle_ok) (simp add: renderParticle_def)


lemma presentGameFinish_particles:
  "\<exists>s f. presentGameFinishPopover w = Inr s \<and> ctx s = Ctx (next_node w) \<and>
       canvas_id (nodes s (next_node w)) = ''game-end-popover'' \<and>
       fireworks s = Some f \<and> radius (particle1 f) = 50 \<and> radius (particle2 f) = 0 \<and>
       alpha (particle2 f) = 1"
proof -
  let ?a = "addCanvasToDOMWithID ''game-end-popover'' w"
  let ?f = "\<lparr>particle1 = \<lparr>radius = 50, lineWidth = 0, alpha = 1, center = (0, 0),
                           color = ''rgba(255, 184, 6, %alpha%)''\<rparr>,
             particle2 = \<lparr>radius = 0, lineWidth = 10, alpha = 1, center = (0, 0),
                           color = ''rgba(255, 184, 6, %alpha%)''\<rparr>,
             particle3 = \<lparr>radius = 0, lineWidth = 20, alpha = 1, center = (0, 0),
                           color = ''rgba(255, 184, 6, %alpha%)''\<rparr>,
             fw_canvas = next_node w\<rparr>"
  let ?b = "?a\<lparr>fireworks := Some ?f\<rparr>"
  have sf: "setFireworks ?a = Inr ?b" by (simp add: setFireworks_def)
  have c: "ctx ?b = Ctx (next_node w)" by simp
  have r: "case fireworks ?b of None \<Rightarrow> True
         | Some f \<Rightarrow> 0 \<le> radius (particle1 f) \<and> 0 \<le> radius (particle2 f) \<and> 0 \<le> radius (particle3 f)"
    by simp
  from renderEndOfGamePopover_ok [OF c r] obtain os where
    "renderEndOfGamePopover ?b = Inr (draw (next_node w) os (set_height (next_node w) 700
        (set_width (next_node w) 1280 (draw (next_node w)
          [ClearRect 0 0 (real (width (nodes ?b (next_node w)))) (real (height (nodes ?b (next_node w))))] ?b))))"
    by blast
  then show ?thesis using sf by (simp add: presentGameFinishPopover_def)
qed

lemma negative_dt_render_throws:
  assumes "dt < 0"
  shows "calls [PresentGameFinish, Update dt now, Render] w = Inl IndexSizeError"
proof -
  obtain s f where s: "presentGameFinishPopover w = Inr s" "ctx s = Ctx (next_node w)"
       "canvas_id (nodes s (next_node w)) = ''game-end-popover''"
       "fireworks s = Some f" "radius (particle1 f) = 50" "radius (particle2 f) = 0"
       "alpha (particle2 f) = 1"
    using presentGameFinish_particles [of w] by blast
  let ?u = "updateFireworks dt s"
  have u: "PopoverManager_update dt now s = Inr ?u"
    using update_fireworks [OF s(2,3)] .
  obtain f' where f': "fireworks ?u = Some f'" "radius (particle1 f') = radius (particle1 f)"
     "particle2 f' = fst (fireworks_particle2_update dt (fw_canvas f) (particle2 f)
       (snd (fireworks_particle1_update dt (fw_canvas f) (particle1 f) s)))"
    using updateFireworks_particle2 [OF s(4), of dt] by blast
  have neg: "radius (particle2 f') < 0"
    using particle2_negative_dt [OF assms, of "particle2 f"] s(6,7) f'(3) by simp
  have cu: "ctx ?u = Ctx (next_node w)" "canvas_id (nodes ?u (next_node w)) = ''game-end-popover''"
    using s(2,3) by simp_all
  let ?d = "draw (next_node w)
                 [SetFillStyle blueGray,
                  FillRect 0 0 1280 700,
                  SetFont ''48pt Amatic SC'',
                  SetTextAlign ''center'',
                  SetFillStyle orange,
                  FillText ''Happy Halloween'' 640 350]
              (set_height (next_node w) 700 (set_width (next_node w) 1280
                (draw (next_node w)
                   [ClearRect 0 0 (real (width (nodes ?u (next_node w))))
                      (real (height (nodes ?u (next_node w))))] ?u)))"
  have e: "renderEndOfGamePopover ?u = renderFireworks ?d"
    using cu(1) by (simp add: renderEndOfGamePopover_def Let_def)
  have "ctx ?d = Ctx (next_node w)" "fireworks ?d = Some f'" using cu(1) f'(1) by simp_all
  from renderFireworks_negative_radius [OF this] f'(2) s(5) neg
  have "renderFireworks ?d = Inl IndexSizeError" by simp
  then have "PopoverManager_render ?u = Inl IndexSizeError"
    using render_end [OF cu] e by simp
  then show ?thesis using s(1) u by simp
qed

end
